theory Spec2Isabelle
  imports Complex_Main
begin

section \<open>JavaScript values\<close>

text \<open>
  A JavaScript string is a sequence of UTF-16 code units, and every string operation the
  program uses (\<^verbatim>\<open>replace\<close> with a regular expression without the \<^verbatim>\<open>u\<close> flag,
  \<^verbatim>\<open>substring\<close>, \<^verbatim>\<open>includes\<close>, comparison) works on code units.  So a string is a list
  of code units, and a code unit is its sixteen bits, written as the high byte and the low
  byte: \<open>(CHR 0x00, CHR 0x41)\<close> is U+0041 and \<open>(CHR 0x20, CHR 0xAC)\<close> is U+20AC.  \<open>js\<close>
  writes the string of an ASCII literal.
\<close>

type_synonym code_unit = "char \<times> char"

type_synonym jsstring = "code_unit list"

definition unit_of :: "char \<Rightarrow> code_unit" where
  "unit_of c = (CHR 0x00, c)"

definition js :: "string \<Rightarrow> jsstring" where
  "js s = map unit_of s"

text \<open>
  The generation backend answers with JSON text, so the items of an extraction are whatever
  \<^verbatim>\<open>JSON.parse\<close> produced.  A parsed value is a \<open>json\<close>; a JavaScript value that may
  also be \<^verbatim>\<open>undefined\<close> (a missing property) is a \<open>json option\<close>, with \<open>None\<close> for
  \<^verbatim>\<open>undefined\<close>.
\<close>

datatype json =
    JNull
  | JBool bool
  | JNum int
  | JStr jsstring
  | JArr "json list"
  | JObj "(jsstring \<times> json) list"

type_synonym jsval = "json option"

text \<open>Every fault of the program is a JavaScript \<^verbatim>\<open>Error\<close> carrying a message.\<close>

datatype error = TypeError jsstring | SyntaxError jsstring | Error jsstring

fun message :: "error \<Rightarrow> jsstring" where
  "message (TypeError m) = m"
| "message (SyntaxError m) = m"
| "message (Error m) = m"

text \<open>
  Property read \<^verbatim>\<open>v.k\<close> for the keys the program reads (\<^verbatim>\<open>name\<close>, \<^verbatim>\<open>type\<close>,
  \<^verbatim>\<open>from\<close>, ...): reading a property of \<^verbatim>\<open>null\<close> throws, an object yields its own
  property, every other value has no such property.
\<close>

fun get_prop :: "json \<Rightarrow> jsstring \<Rightarrow> error + jsval" where
  "get_prop JNull k = Inl (TypeError ((js ''Cannot read properties of null (reading '') @ k @ (js '')'')))"
| "get_prop (JObj kvs) k = Inr (map_of kvs k)"
| "get_prop v k = Inr None"


section \<open>The knowledge graph store, write side (neo4jClient.js)\<close>

text \<open>
  Provenance attached to every upsert: \<^verbatim>\<open>{chunk_id, doc_id, extracted_at}\<close>.
\<close>

record provenance =
  prov_chunk_id :: jsstring
  prov_doc_id :: jsstring
  extracted_at :: jsstring

text \<open>
  The statements sent with \<^verbatim>\<open>session.run\<close>.  \<open>MergeNode l n p\<close> is
  \<^verbatim>\<open>MERGE (p:l {name: $name}) SET p += $properties\<close>; \<open>MergeRel fl tl rl fn tn p\<close> is
  \<^verbatim>\<open>MERGE (from:`fl` {name: $fromName}) MERGE (to:`tl` {name: $toName})
  MERGE (from)-[r:`rl`]->(to) SET r += $properties\<close>.
\<close>

datatype cypher_write =
    MergeNode jsstring jsval provenance
  | MergeRel jsstring jsstring jsstring jsval jsval provenance

text \<open>
  A node carries its labels, its \<^verbatim>\<open>name\<close> property (whatever value it was merged with) and
  the provenance properties \<^verbatim>\<open>chunk_id\<close> and \<^verbatim>\<open>doc_id\<close>, which a node created only as the
  endpoint of a relationship does not have.  A relationship joins two nodes by their ids.
\<close>

record gnode =
  node_id :: nat
  labels :: "jsstring list"
  n_name :: jsval
  n_chunk_id :: "jsstring option"
  n_doc_id :: "jsstring option"

record grel =
  rel_id :: nat
  rel_src :: nat
  rel_type :: jsstring
  rel_dst :: nat

text \<open>
  The store: \<open>driver\<close> is the module-level handle (\<open>False\<close> when \<^verbatim>\<open>driver\<close> is
  \<^verbatim>\<open>null\<close>), \<open>accepts\<close> says which statements the external store executes (the others
  make \<^verbatim>\<open>session.run\<close> reject), \<open>executed\<close> lists the write statements the store has
  executed, oldest first, \<open>clock\<close> is what \<^verbatim>\<open>new Date().toISOString()\<close> returns, and
  \<open>nodes\<close> and \<open>rels\<close> are the graph the read queries match against.
\<close>

record neo4j =
  driver :: bool
  accepts :: "cypher_write \<Rightarrow> bool"
  executed :: "cypher_write list"
  clock :: jsstring
  nodes :: "gnode list"
  rels :: "grel list"

definition getSession :: "neo4j \<Rightarrow> error + unit" where
  "getSession db =
     (if \<not> driver db then Inl (Error (js ''Neo4j not connected. Call connectNeo4j() first.''))
      else Inr ())"

definition run_write :: "neo4j \<Rightarrow> cypher_write \<Rightarrow> neo4j \<times> (error + unit)" where
  "run_write db stmt =
     (if accepts db stmt then (db\<lparr>executed := executed db @ [stmt]\<rparr>, Inr ())
      else (db, Inl (Error (js ''Neo4j rejected the statement''))))"

definition createNode :: "jsstring \<Rightarrow> neo4j \<Rightarrow> jsval \<Rightarrow> provenance \<Rightarrow> neo4j \<times> (error + unit)" where
  "createNode label db name properties =
     (case getSession db of
        Inl e \<Rightarrow> (db, Inl e)
      | Inr _ \<Rightarrow> run_write db (MergeNode label name properties))"

definition createPersonNode :: "neo4j \<Rightarrow> jsval \<Rightarrow> provenance \<Rightarrow> neo4j \<times> (error + unit)" where
  "createPersonNode = createNode (js ''Person'')"

definition createCompanyNode :: "neo4j \<Rightarrow> jsval \<Rightarrow> provenance \<Rightarrow> neo4j \<times> (error + unit)" where
  "createCompanyNode = createNode (js ''Company'')"

definition createProductNode :: "neo4j \<Rightarrow> jsval \<Rightarrow> provenance \<Rightarrow> neo4j \<times> (error + unit)" where
  "createProductNode = createNode (js ''Product'')"

definition createFieldNode :: "neo4j \<Rightarrow> jsval \<Rightarrow> provenance \<Rightarrow> neo4j \<times> (error + unit)" where
  "createFieldNode = createNode (js ''Field'')"

text \<open>
  \<^verbatim>\<open>label.replace(/[^a-zA-Z0-9_]/g, '_')\<close>: the character class, then the replacement of
  every character outside it.
\<close>

definition in_range :: "char \<Rightarrow> char \<Rightarrow> code_unit \<Rightarrow> bool" where
  "in_range lo hi c =
     (fst c = CHR 0x00 \<and> (of_char lo :: nat) \<le> of_char (snd c)
      \<and> (of_char (snd c) :: nat) \<le> of_char hi)"

definition word_char :: "code_unit \<Rightarrow> bool" where
  "word_char c =
     (in_range CHR ''a'' CHR ''z'' c \<or> in_range CHR ''A'' CHR ''Z'' c
      \<or> in_range CHR ''0'' CHR ''9'' c \<or> c = unit_of CHR ''_'')"

definition replace_nonword :: "jsstring \<Rightarrow> jsstring" where
  "replace_nonword s = map (\<lambda>c. if word_char c then c else unit_of CHR ''_'') s"

text \<open>
  \<^verbatim>\<open>sanitizeLabel\<close> is applied to whatever the extraction carried: only a string has a
  \<^verbatim>\<open>replace\<close> method, anything else throws a TypeError.
\<close>

fun sanitizeLabel :: "jsval \<Rightarrow> error + jsstring" where
  "sanitizeLabel (Some (JStr s)) = Inr (replace_nonword s)"
| "sanitizeLabel None = Inl (TypeError (js ''Cannot read properties of undefined (reading replace)''))"
| "sanitizeLabel (Some JNull) = Inl (TypeError (js ''Cannot read properties of null (reading replace)''))"
| "sanitizeLabel (Some v) = Inl (TypeError (js ''label.replace is not a function''))"

definition createRelationship ::
  "neo4j \<Rightarrow> jsval \<Rightarrow> jsval \<Rightarrow> jsval \<Rightarrow> jsval \<Rightarrow> jsval \<Rightarrow> provenance \<Rightarrow> neo4j \<times> (error + unit)" where
  "createRelationship db fromType fromName relType toType toName properties =
     (case getSession db of
        Inl e \<Rightarrow> (db, Inl e)
      | Inr _ \<Rightarrow>
         (case sanitizeLabel fromType of
            Inl e \<Rightarrow> (db, Inl e)
          | Inr fromLabel \<Rightarrow>
             (case sanitizeLabel toType of
                Inl e \<Rightarrow> (db, Inl e)
              | Inr toLabel \<Rightarrow>
                 (case sanitizeLabel relType of
                    Inl e \<Rightarrow> (db, Inl e)
                  | Inr relLabel \<Rightarrow>
                      run_write db (MergeRel fromLabel toLabel relLabel fromName toName properties)))))"

text \<open>
  \<^verbatim>\<open>storeExtraction\<close>.  An extraction is \<^verbatim>\<open>{entities, relationships, error?}\<close>; a
  property that is absent is \<open>None\<close>, and \<open>rest\<close> keeps the value the extraction was parsed
  from, with its other properties.  The \<^verbatim>\<open>switch\<close> on \<^verbatim>\<open>entity.type\<close> has four cases
  and no default, and the counter is incremented after it.
\<close>

record extraction =
  entities :: "json list option"
  relationships :: "json list option"
  error :: jsval
  rest :: "json option"

record store_result =
  stored_entities :: nat
  stored_relationships :: nat

definition with_name ::
  "(neo4j \<Rightarrow> jsval \<Rightarrow> provenance \<Rightarrow> neo4j \<times> (error + unit)) \<Rightarrow>
   neo4j \<Rightarrow> provenance \<Rightarrow> json \<Rightarrow> neo4j \<times> (error + unit)" where
  "with_name create db props entity =
     (case get_prop entity (js ''name'') of
        Inl e \<Rightarrow> (db, Inl e)
      | Inr name \<Rightarrow> create db name props)"

definition store_entity :: "neo4j \<Rightarrow> provenance \<Rightarrow> json \<Rightarrow> neo4j \<times> (error + unit)" where
  "store_entity db props entity =
     (case get_prop entity (js ''type'') of
        Inl e \<Rightarrow> (db, Inl e)
      | Inr t \<Rightarrow>
          if t = Some (JStr (js ''Person'')) then with_name createPersonNode db props entity
          else if t = Some (JStr (js ''Company'')) then with_name createCompanyNode db props entity
          else if t = Some (JStr (js ''Product'')) then with_name createProductNode db props entity
          else if t = Some (JStr (js ''Field'')) then with_name createFieldNode db props entity
          else (db, Inr ()))"

fun store_entities :: "neo4j \<Rightarrow> provenance \<Rightarrow> json list \<Rightarrow> nat \<Rightarrow> neo4j \<times> (error + nat)" where
  "store_entities db props [] n = (db, Inr n)"
| "store_entities db props (entity # es) n =
     (case store_entity db props entity of
        (db', Inl e) \<Rightarrow> (db', Inl e)
      | (db', Inr _) \<Rightarrow> store_entities db' props es (Suc n))"

definition store_relationship :: "neo4j \<Rightarrow> provenance \<Rightarrow> json \<Rightarrow> neo4j \<times> (error + unit)" where
  "store_relationship db provenance rel =
     (case get_prop rel (js ''from_type'') of
        Inl e \<Rightarrow> (db, Inl e)
      | Inr from_type \<Rightarrow>
     (case get_prop rel (js ''from'') of
        Inl e \<Rightarrow> (db, Inl e)
      | Inr from_name \<Rightarrow>
     (case get_prop rel (js ''type'') of
        Inl e \<Rightarrow> (db, Inl e)
      | Inr rel_ty \<Rightarrow>
     (case get_prop rel (js ''to_type'') of
        Inl e \<Rightarrow> (db, Inl e)
      | Inr to_type \<Rightarrow>
     (case get_prop rel (js ''to'') of
        Inl e \<Rightarrow> (db, Inl e)
      | Inr to_name \<Rightarrow>
          createRelationship db from_type from_name rel_ty to_type to_name provenance)))))"

fun store_relationships :: "neo4j \<Rightarrow> provenance \<Rightarrow> json list \<Rightarrow> nat \<Rightarrow> neo4j \<times> (error + nat)" where
  "store_relationships db provenance [] n = (db, Inr n)"
| "store_relationships db provenance (rel # rs) n =
     (case store_relationship db provenance rel of
        (db', Inl e) \<Rightarrow> (db', Inl e)
      | (db', Inr _) \<Rightarrow> store_relationships db' provenance rs (Suc n))"

definition array_of :: "json list option \<Rightarrow> json list" where
  "array_of a = (case a of None \<Rightarrow> [] | Some xs \<Rightarrow> xs)"

definition storeExtraction ::
  "neo4j \<Rightarrow> extraction \<Rightarrow> jsstring \<Rightarrow> jsstring \<Rightarrow> neo4j \<times> (error + store_result)" where
  "storeExtraction db extraction chunkId docId =
     (let provenance = \<lparr>prov_chunk_id = chunkId, prov_doc_id = docId, extracted_at = clock db\<rparr> in
      case store_entities db provenance (array_of (entities extraction)) 0 of
        (db1, Inl e) \<Rightarrow> (db1, Inl e)
      | (db1, Inr ne) \<Rightarrow>
         (case store_relationships db1 provenance
                 (array_of (relationships extraction)) 0 of
            (db2, Inl e) \<Rightarrow> (db2, Inl e)
          | (db2, Inr nr) \<Rightarrow> (db2, Inr \<lparr>stored_entities = ne, stored_relationships = nr\<rparr>)))"














section \<open>The entity extractor (entityExtractor.js)\<close>

text \<open>
  The generation call is external.  What the extractor sees of it is when and how the promise
  returned by \<^verbatim>\<open>model.invoke(prompt)\<close> settles: after some milliseconds with the content of
  the response, after some milliseconds with a rejection, or never.  \<^verbatim>\<open>JSON.parse\<close> is the
  JavaScript built-in; it is a parameter too (\<open>Inl\<close> is the SyntaxError it throws).
\<close>

datatype llm_outcome = Completes nat jsstring | Fails nat jsstring | Hangs

record extractor_env =
  llm :: "jsstring \<Rightarrow> llm_outcome"
  json_parse :: "jsstring \<Rightarrow> error + json"

definition nl :: jsstring where
  "nl = [unit_of (CHR 0x0A)]"

text \<open>
  \<^verbatim>\<open>createExtractionPrompt\<close>: \<^verbatim>\<open>text.substring(0, 800)\<close> inside a fixed template.  The
  text is \<open>None\<close> when the caller passes \<^verbatim>\<open>undefined\<close> (a chunk without a text), and then
  reading \<^verbatim>\<open>substring\<close> throws.
\<close>

definition createExtractionPrompt :: "jsstring option \<Rightarrow> error + jsstring" where
  \<open>createExtractionPrompt text =
     (case text of
        None \<Rightarrow> Inl (TypeError (js ''Cannot read properties of undefined (reading substring)''))
      | Some t \<Rightarrow> Inr (
          (js ''Extract entities and relationships from this text as JSON.'') @ nl @ nl @
          (js ''Entity types: Person, Company, Product, Field'') @ nl @
          (js ''Relationship types: CEO_OF, FOUNDED, WORKS_ON, INVESTED_IN, PARTNERED_WITH, DEVELOPED, RELATED_TO'') @ nl @ nl @
          (js ''TEXT:'') @ nl @ take 800 t @ nl @ nl @
          (js ''Return JSON:'') @ nl @
          (js ''{"entities":[{"name":"string","type":"Person|Company|Product|Field"}],"relationships":[{"from":"name","from_type":"type","type":"rel_type","to":"name","to_type":"type"}]}'') @ nl @ nl @
          (js ''JSON:'')))\<close>

text \<open>
  \<^verbatim>\<open>Promise.race([extractionPromise, timeoutPromise])\<close>: the generation wins when it
  settles before the timer of \<open>timeout\<close> milliseconds fires; otherwise the race rejects with
  \<^verbatim>\<open>Extraction timeout\<close>.  \<open>timed_out\<close> says that the generation has not settled when the
  timer fires.
\<close>

definition timed_out :: "llm_outcome \<Rightarrow> nat \<Rightarrow> bool" where
  "timed_out outcome timeout =
     (case outcome of Completes t content \<Rightarrow> timeout \<le> t | Fails t msg \<Rightarrow> timeout \<le> t | Hangs \<Rightarrow> True)"

definition race :: "llm_outcome \<Rightarrow> nat \<Rightarrow> error + jsstring" where
  "race outcome timeout =
     (case outcome of
        Completes t content \<Rightarrow> if t < timeout then Inr content else Inl (Error (js ''Extraction timeout''))
      | Fails t msg \<Rightarrow> if t < timeout then Inl (Error msg) else Inl (Error (js ''Extraction timeout''))
      | Hangs \<Rightarrow> Inl (Error (js ''Extraction timeout'')))"

text \<open>The object built in the \<^verbatim>\<open>catch\<close> blocks: \<^verbatim>\<open>{entities: [], relationships: [], error}\<close>.\<close>

definition empty_extraction :: "jsstring \<Rightarrow> extraction" where
  "empty_extraction msg =
     \<lparr>entities = Some [], relationships = Some [], error = Some (JStr msg), rest = None\<rparr>"

text \<open>
  The structure check on the parsed value: a field that is missing, falsy or not an array is
  replaced by \<^verbatim>\<open>[]\<close>.  Reading a property of \<^verbatim>\<open>null\<close> throws, and so does, in module
  (strict) code, assigning a property on a boolean, a number or a string; an array has no such
  properties and gets both assigned.
\<close>

definition coerce_array :: "jsval \<Rightarrow> json list" where
  "coerce_array v = (case v of Some (JArr xs) \<Rightarrow> xs | _ \<Rightarrow> [])"

fun validate_structure :: "json \<Rightarrow> error + extraction" where
  "validate_structure JNull = Inl (TypeError (js ''Cannot read properties of null (reading entities)''))"
| "validate_structure (JObj kvs) =
     Inr \<lparr>entities = Some (coerce_array (map_of kvs (js ''entities''))),
          relationships = Some (coerce_array (map_of kvs (js ''relationships''))),
          error = map_of kvs (js ''error''), rest = Some (JObj kvs)\<rparr>"
| "validate_structure (JArr xs) =
     Inr \<lparr>entities = Some [], relationships = Some [], error = None, rest = Some (JArr xs)\<rparr>"
| "validate_structure v = Inl (TypeError (js ''Cannot create property entities on a primitive value''))"

text \<open>
  \<^verbatim>\<open>extractEntitiesAndRelationships\<close>.  The prompt is built before the \<^verbatim>\<open>try\<close>, so its
  fault is thrown to the caller (\<open>Inl\<close>); everything after it is inside the \<^verbatim>\<open>try\<close>, whose
  \<^verbatim>\<open>catch\<close> returns the empty extraction with the message.
\<close>

definition extractEntitiesAndRelationships ::
  "extractor_env \<Rightarrow> jsstring option \<Rightarrow> nat \<Rightarrow> error + extraction" where
  "extractEntitiesAndRelationships env text timeout =
     (case createExtractionPrompt text of
        Inl e \<Rightarrow> Inl e
      | Inr prompt \<Rightarrow>
          Inr (case race (llm env prompt) timeout of
                 Inl e \<Rightarrow> empty_extraction (message e)
               | Inr content \<Rightarrow>
                  (case json_parse env content of
                     Inl e \<Rightarrow> empty_extraction (message e)
                   | Inr parsed \<Rightarrow>
                      (case validate_structure parsed of
                         Inl e \<Rightarrow> empty_extraction (message e)
                       | Inr extraction \<Rightarrow> extraction))))"

section \<open>Passages\<close>

text \<open>
  A chunk as \<^verbatim>\<open>chunkDocument\<close> builds it and the chunk store returns it.  The page number
  is an integer when present, the text is present in every ingested chunk, \<open>score\<close> is added
  by the vector search, and \<open>chunk_extraction\<close> is the optional \<^verbatim>\<open>extraction\<close> property.
\<close>

record chunk =
  chunk_id :: jsstring
  doc_id :: jsstring
  source_title :: jsstring
  page_number :: "nat option"
  chunk_text :: "jsstring option"
  score :: "rat option"
  chunk_extraction :: "extraction option"

text \<open>
  \<^verbatim>\<open>extractFromChunks\<close>: one pass over the batch, each chunk in its own \<^verbatim>\<open>try\<close>.  The
  counters only feed the progress lines and the summary line.
\<close>

record batch_state =
  chunksWithExtractions :: "(chunk \<times> extraction) list"
  totalEntities :: nat
  totalRelationships :: nat
  processed :: nat
  errors :: nat

definition array_length :: "json list option \<Rightarrow> nat" where
  "array_length a = (case a of None \<Rightarrow> 0 | Some xs \<Rightarrow> length xs)"

definition extract_step :: "extractor_env \<Rightarrow> batch_state \<Rightarrow> chunk \<Rightarrow> batch_state" where
  "extract_step env st chunk =
     (case extractEntitiesAndRelationships env (chunk_text chunk) 45000 of
        Inr extraction \<Rightarrow>
          st\<lparr>chunksWithExtractions := chunksWithExtractions st @ [(chunk, extraction)],
             totalEntities := totalEntities st + array_length (entities extraction),
             totalRelationships := totalRelationships st + array_length (relationships extraction),
             processed := processed st + 1\<rparr>
      | Inl e \<Rightarrow>
          st\<lparr>errors := errors st + 1,
             chunksWithExtractions := chunksWithExtractions st @ [(chunk, empty_extraction (message e))],
             processed := processed st + 1\<rparr>)"

fun extract_loop :: "extractor_env \<Rightarrow> batch_state \<Rightarrow> chunk list \<Rightarrow> batch_state" where
  "extract_loop env st [] = st"
| "extract_loop env st (chunk # chunks) = extract_loop env (extract_step env st chunk) chunks"

definition extractFromChunks :: "extractor_env \<Rightarrow> chunk list \<Rightarrow> (chunk \<times> extraction) list" where
  "extractFromChunks env chunks =
     chunksWithExtractions
       (extract_loop env
          \<lparr>chunksWithExtractions = [], totalEntities = 0, totalRelationships = 0,
           processed = 0, errors = 0\<rparr> chunks)"

section \<open>Citations (promptBuilder.js)\<close>

text \<open>
  A JavaScript number that is a non-negative integer (below \<open>10^21\<close>, as every page number
  is) prints as its decimal digits, and
  \<^verbatim>\<open>undefined\<close> prints as the word: this is what the template literal
  \<^verbatim>\<open>`${chunk.doc_id}:${chunk.page_number}`\<close> splices.
\<close>

definition digit_char :: "nat \<Rightarrow> code_unit" where
  "digit_char d = unit_of (''0123456789'' ! d)"

fun show_nat :: "nat \<Rightarrow> jsstring" where
  "show_nat n = (if n < 10 then [digit_char n] else show_nat (n div 10) @ [digit_char (n mod 10)])"

declare show_nat.simps [simp del]

definition show_page :: "nat option \<Rightarrow> jsstring" where
  "show_page p = (case p of None \<Rightarrow> (js ''undefined'') | Some n \<Rightarrow> show_nat n)"

record citation =
  cit_source_title :: jsstring
  cit_page_number :: "nat option"
  cit_doc_id :: jsstring
  cit_chunk_id :: jsstring

definition citation_key :: "chunk \<Rightarrow> jsstring" where
  "citation_key chunk = doc_id chunk @ (js '':'') @ show_page (page_number chunk)"

definition citation_of :: "chunk \<Rightarrow> citation" where
  "citation_of chunk =
     \<lparr>cit_source_title = source_title chunk, cit_page_number = page_number chunk,
      cit_doc_id = doc_id chunk, cit_chunk_id = chunk_id chunk\<rparr>"

fun citations_loop :: "chunk list \<Rightarrow> jsstring set \<Rightarrow> citation list \<Rightarrow> citation list" where
  "citations_loop [] seen citations = citations"
| "citations_loop (chunk # chunks) seen citations =
     (if citation_key chunk \<notin> seen
      then citations_loop chunks (insert (citation_key chunk) seen) (citations @ [citation_of chunk])
      else citations_loop chunks seen citations)"

definition extractCitations :: "chunk list \<Rightarrow> citation list" where
  "extractCitations chunks = citations_loop chunks {} []"

text \<open>The (document identifier, page number) pair of a passage and of a citation.\<close>

definition chunk_page :: "chunk \<Rightarrow> jsstring \<times> nat option" where
  "chunk_page chunk = (doc_id chunk, page_number chunk)"

definition citation_page :: "citation \<Rightarrow> jsstring \<times> nat option" where
  "citation_page c = (cit_doc_id c, cit_page_number c)"


section \<open>The knowledge graph store, read side (neo4jClient.js)\<close>

text \<open>
  The pattern \<^verbatim>\<open>(start {name: $entityName})-[*1..depth]-(related)\<close> matches the paths that
  leave a node with the given name, follow between 1 and \<open>depth\<close> relationships in either
  direction and use no relationship twice.  A trail is the list of relationship ids used,
  newest first, with the node reached.
\<close>

type_synonym trail = "nat list \<times> nat"

definition other_end :: "grel \<Rightarrow> nat \<Rightarrow> nat option" where
  "other_end r v =
     (if rel_src r = v then Some (rel_dst r) else if rel_dst r = v then Some (rel_src r) else None)"

definition hop :: "grel list \<Rightarrow> trail \<Rightarrow> trail list" where
  "hop rs t =
     concat (map (\<lambda>r. if rel_id r \<in> set (fst t) then []
                        else (case other_end r (snd t) of
                                None \<Rightarrow> []
                              | Some w \<Rightarrow> [(rel_id r # fst t, w)])) rs)"

fun trails :: "grel list \<Rightarrow> nat \<Rightarrow> nat \<Rightarrow> trail list" where
  "trails rs v 0 = [([], v)]"
| "trails rs v (Suc k) = concat (map (hop rs) (trails rs v k))"

definition var_length :: "grel list \<Rightarrow> nat \<Rightarrow> nat \<Rightarrow> nat \<Rightarrow> trail list" where
  "var_length rs v lo hi = concat (map (trails rs v) [lo..<Suc hi])"

text \<open>
  One record of the result: the properties of the related node, its first label
  (\<^verbatim>\<open>labels[0]\<close>, undefined for a node without labels) and the path, of which the program
  reads only the length.
\<close>

record related_row =
  row_entity :: gnode
  row_type :: "jsstring option"
  row_path_length :: nat

definition first_label :: "gnode \<Rightarrow> jsstring option" where
  "first_label n = (case labels n of [] \<Rightarrow> None | l # _ \<Rightarrow> Some l)"

definition match_related :: "neo4j \<Rightarrow> jsval \<Rightarrow> nat \<Rightarrow> related_row list" where
  "match_related db entityName depth =
     concat (map (\<lambda>start.
       concat (map (\<lambda>t.
         map (\<lambda>related. \<lparr>row_entity = related, row_type = first_label related,
                           row_path_length = length (fst t)\<rparr>)
             (filter (\<lambda>n. node_id n = snd t) (nodes db)))
         (var_length (rels db) (node_id start) 1 depth)))
       (filter (\<lambda>n. n_name n = entityName \<and> entityName \<noteq> None \<and> entityName \<noteq> Some JNull)
               (nodes db)))"

text \<open>\<^verbatim>\<open>findRelatedEntities\<close>: the query ends with \<^verbatim>\<open>LIMIT 50\<close>.\<close>

definition findRelatedEntities :: "neo4j \<Rightarrow> jsval \<Rightarrow> nat \<Rightarrow> error + related_row list" where
  "findRelatedEntities db entityName depth =
     (case getSession db of
        Inl e \<Rightarrow> Inl e
      | Inr _ \<Rightarrow> Inr (take 50 (match_related db entityName depth)))"

section \<open>The chunk store (mongodbClient.js)\<close>

text \<open>
  \<open>client\<close> and \<open>dbh\<close> are the module-level \<^verbatim>\<open>client\<close> and \<^verbatim>\<open>db\<close> (\<open>False\<close> for
  \<^verbatim>\<open>null\<close>), \<open>collection\<close> the documents in the order the store returns them, and
  \<open>nearest\<close> the ranking the vector index gives for a query vector, most similar first, with
  the scores set.
\<close>

record mongodb =
  client :: bool
  dbh :: bool
  collection :: "chunk list"
  nearest :: "rat list \<Rightarrow> chunk list"

record config =
  cfg_topK :: nat
  cfg_graphTraversalDepth :: nat

definition getCollection :: "mongodb \<Rightarrow> error + unit" where
  "getCollection db =
     (if \<not> dbh db then Inl (Error (js ''Database not connected. Call connectMongoDB() first.''))
      else Inr ())"

text \<open>
  \<^verbatim>\<open>vectorSearch\<close>: \<^verbatim>\<open>limit || config.vectorSearch.topK\<close> results, projected to
  \<^verbatim>\<open>chunk_id, doc_id, source_title, text, page_number, score\<close>.
\<close>

definition project :: "chunk \<Rightarrow> chunk" where
  "project c = c\<lparr>chunk_extraction := None\<rparr>"

definition vectorSearch :: "config \<Rightarrow> mongodb \<Rightarrow> rat list \<Rightarrow> nat \<Rightarrow> error + chunk list" where
  "vectorSearch cfg db queryEmbedding limit =
     (case getCollection db of
        Inl e \<Rightarrow> Inl e
      | Inr _ \<Rightarrow>
          (let k = (if limit = 0 then cfg_topK cfg else limit)
           in Inr (map project (take k (nearest db queryEmbedding)))))"

text \<open>\<^verbatim>\<open>getChunksByIds\<close>: \<^verbatim>\<open>find({chunk_id: {$in: chunkIds}})\<close>.\<close>

definition getChunksByIds :: "mongodb \<Rightarrow> jsstring list \<Rightarrow> error + chunk list" where
  "getChunksByIds db chunkIds =
     (case getCollection db of
        Inl e \<Rightarrow> Inl e
      | Inr _ \<Rightarrow> Inr (filter (\<lambda>c. chunk_id c \<in> set chunkIds) (collection db)))"

section \<open>Hybrid retrieval (hybridRetrieval.js)\<close>

text \<open>
  A JavaScript \<^verbatim>\<open>Set\<close> keeps its elements in insertion order; \<open>add_new\<close> is
  \<^verbatim>\<open>Set.prototype.add\<close> on the list of elements.  (Elements are compared as values; the
  program only ever adds strings.)
\<close>

definition add_new :: "'a list \<Rightarrow> 'a \<Rightarrow> 'a list" where
  "add_new xs x = (if x \<in> set xs then xs else xs @ [x])"

text \<open>What a template literal prints for a value.\<close>

definition show_int :: "int \<Rightarrow> jsstring" where
  "show_int i = (if i < 0 then (js ''-'') @ show_nat (nat (- i)) else show_nat (nat i))"

fun join :: "jsstring \<Rightarrow> jsstring list \<Rightarrow> jsstring" where
  "join sep [] = []"
| "join sep [x] = x"
| "join sep (x # y # ys) = x @ sep @ join sep (y # ys)"

fun json_string :: "json \<Rightarrow> jsstring" where
  "json_string JNull = (js ''null'')"
| "json_string (JBool b) = (if b then (js ''true'') else (js ''false''))"
| "json_string (JNum n) = show_int n"
| "json_string (JStr s) = s"
| "json_string (JArr xs) = join (js '','') (map (\<lambda>x. if x = JNull then [] else json_string x) xs)"
| "json_string (JObj kvs) = (js ''[object Object]'')"

definition js_string :: "jsval \<Rightarrow> jsstring" where
  "js_string v = (case v of None \<Rightarrow> (js ''undefined'') | Some j \<Rightarrow> json_string j)"

definition show_opt :: "jsstring option \<Rightarrow> jsstring" where
  "show_opt v = (case v of None \<Rightarrow> (js ''undefined'') | Some s \<Rightarrow> s)"

text \<open>\<^verbatim>\<open>toLowerCase\<close> and \<^verbatim>\<open>includes\<close> on strings.\<close>

definition lower_char :: "code_unit \<Rightarrow> code_unit" where
  "lower_char c =
     (case map_of (zip (js ''ABCDEFGHIJKLMNOPQRSTUVWXYZ'') (js ''abcdefghijklmnopqrstuvwxyz'')) c of
        None \<Rightarrow> c
      | Some l \<Rightarrow> l)"

definition toLowerCase :: "jsstring \<Rightarrow> jsstring" where
  "toLowerCase s = map lower_char s"

fun starts_with :: "jsstring \<Rightarrow> jsstring \<Rightarrow> bool" where
  "starts_with s [] = True"
| "starts_with [] (c # cs) = False"
| "starts_with (a # s) (c # cs) = (a = c \<and> starts_with s cs)"

fun str_includes :: "jsstring \<Rightarrow> jsstring \<Rightarrow> bool" where
  "str_includes [] needle = (needle = [])"
| "str_includes (a # s) needle = (starts_with (a # s) needle \<or> str_includes s needle)"

text \<open>
  \<^verbatim>\<open>extractEntityNamesFromChunks\<close>, method 1: the names of the entities in the
  \<^verbatim>\<open>extraction\<close> property of the chunks that have one.  Reading the name of a
  \<^verbatim>\<open>null\<close> entity throws, outside any \<^verbatim>\<open>try\<close>.
\<close>

fun add_names :: "jsval list \<Rightarrow> json list \<Rightarrow> error + jsval list" where
  "add_names names [] = Inr names"
| "add_names names (entity # es) =
     (case get_prop entity (js ''name'') of
        Inl e \<Rightarrow> Inl e
      | Inr name \<Rightarrow> add_names (add_new names name) es)"

fun linked_names :: "jsval list \<Rightarrow> chunk list \<Rightarrow> error + jsval list" where
  "linked_names names [] = Inr names"
| "linked_names names (chunk # chunks) =
     (case chunk_extraction chunk of
        None \<Rightarrow> linked_names names chunks
      | Some x \<Rightarrow>
         (case entities x of
            None \<Rightarrow> linked_names names chunks
          | Some es \<Rightarrow>
             (case add_names names es of
                Inl e \<Rightarrow> Inl e
              | Inr names' \<Rightarrow> linked_names names' chunks)))"

text \<open>
  Method 2, inside one \<^verbatim>\<open>try\<close>: every distinct non-null name of the graph that occurs,
  case-insensitively, in the text of a chunk.  A chunk without a text or a name that is not a
  string throws; the \<^verbatim>\<open>catch\<close> ends the scan and the names added so far stay.  The second
  component is \<open>True\<close> while nothing has thrown.
\<close>

definition all_entity_names :: "neo4j \<Rightarrow> jsval list" where
  "all_entity_names db =
     fold (\<lambda>n acc. add_new acc (n_name n))
          (filter (\<lambda>n. n_name n \<noteq> None \<and> n_name n \<noteq> Some JNull) (nodes db)) []"

fun scan_names :: "jsstring \<Rightarrow> jsval list \<Rightarrow> jsval list \<Rightarrow> jsval list \<times> bool" where
  "scan_names chunkText names [] = (names, True)"
| "scan_names chunkText names (entityName # others) =
     (case entityName of
        Some (JStr s) \<Rightarrow>
          scan_names chunkText
            (if str_includes chunkText (toLowerCase s) then add_new names entityName else names) others
      | _ \<Rightarrow> (names, False))"

fun scan_chunks :: "jsval list \<Rightarrow> jsval list \<Rightarrow> chunk list \<Rightarrow> jsval list" where
  "scan_chunks allEntityNames names [] = names"
| "scan_chunks allEntityNames names (chunk # chunks) =
     (case chunk_text chunk of
        None \<Rightarrow> names
      | Some t \<Rightarrow>
         (case scan_names (toLowerCase t) names allEntityNames of
            (names', True) \<Rightarrow> scan_chunks allEntityNames names' chunks
          | (names', False) \<Rightarrow> names'))"

definition extractEntityNamesFromChunks :: "neo4j \<Rightarrow> chunk list \<Rightarrow> error + jsval list" where
  "extractEntityNamesFromChunks db chunks =
     (case linked_names [] chunks of
        Inl e \<Rightarrow> Inl e
      | Inr entityNames \<Rightarrow>
          if entityNames = [] \<and> chunks \<noteq> [] then
            (case getSession db of
               Inl e \<Rightarrow> Inr entityNames
             | Inr _ \<Rightarrow> Inr (scan_chunks (all_entity_names db) entityNames chunks))
          else Inr entityNames)"

text \<open>\<^verbatim>\<open>expandViaGraph\<close>: one traversal per starting name, each in its own \<^verbatim>\<open>try\<close>.\<close>

record related_entity =
  re_name :: jsval
  re_type :: "jsstring option"
  re_chunk_id :: "jsstring option"
  re_doc_id :: "jsstring option"

record graph_path =
  path_from :: jsval
  path_to :: jsval
  path_depth :: nat

record expansion =
  relatedEntities :: "related_entity list"
  paths :: "graph_path list"
  seenEntities :: "jsstring set"

definition entity_key :: "related_row \<Rightarrow> jsstring" where
  "entity_key rel = show_opt (row_type rel) @ (js '':'') @ js_string (n_name (row_entity rel))"

definition expand_row :: "jsval \<Rightarrow> expansion \<Rightarrow> related_row \<Rightarrow> expansion" where
  "expand_row entityName st rel =
     (let st1 = (if entity_key rel \<notin> seenEntities st
                 then st\<lparr>seenEntities := insert (entity_key rel) (seenEntities st),
                         relatedEntities := relatedEntities st @
                           [\<lparr>re_name = n_name (row_entity rel), re_type = row_type rel,
                             re_chunk_id = n_chunk_id (row_entity rel),
                             re_doc_id = n_doc_id (row_entity rel)\<rparr>]\<rparr>
                 else st)
      in st1\<lparr>paths := paths st1 @
                 [\<lparr>path_from = entityName, path_to = n_name (row_entity rel),
                   path_depth = row_path_length rel\<rparr>]\<rparr>)"

definition expand_entity :: "neo4j \<Rightarrow> nat \<Rightarrow> expansion \<Rightarrow> jsval \<Rightarrow> expansion" where
  "expand_entity db depth st entityName =
     (case findRelatedEntities db entityName depth of
        Inl e \<Rightarrow> st
      | Inr related \<Rightarrow> foldl (expand_row entityName) st related)"

definition expandViaGraph :: "neo4j \<Rightarrow> jsval list \<Rightarrow> nat \<Rightarrow> expansion" where
  "expandViaGraph db entityNames depth =
     foldl (expand_entity db depth) \<lparr>relatedEntities = [], paths = [], seenEntities = {}\<rparr> entityNames"

text \<open>
  \<^verbatim>\<open>hybridRetrieval\<close>.  The embedding call is external (\<open>embedQuery\<close>); an option that is
  not given takes its default from the configuration.
\<close>

record stores =
  mongo :: mongodb
  neo :: neo4j
  embedQuery :: "jsstring \<Rightarrow> error + rat list"
  cfg :: config

record retrieval_options =
  topK :: "nat option"
  graphDepth :: "nat option"
  includeGraphPaths :: "bool option"

record retrieval =
  r_query :: jsstring
  vectorChunks :: "chunk list"
  graphEntities :: "related_entity list"
  graphChunks :: "chunk list"
  allChunks :: "chunk list"
  graphPaths :: "graph_path list"

definition relatedChunkIds :: "related_entity list \<Rightarrow> jsstring list" where
  "relatedChunkIds es =
     foldl (\<lambda>ids entity. case re_chunk_id entity of
                            None \<Rightarrow> ids
                          | Some i \<Rightarrow> if i \<noteq> [] then add_new ids i else ids) [] es"

definition hybridRetrieval :: "stores \<Rightarrow> jsstring \<Rightarrow> retrieval_options \<Rightarrow> error + retrieval" where
  "hybridRetrieval w query options =
     (let k = (case topK options of None \<Rightarrow> cfg_topK (cfg w) | Some n \<Rightarrow> n);
          depth = (case graphDepth options of None \<Rightarrow> cfg_graphTraversalDepth (cfg w) | Some d \<Rightarrow> d);
          withPaths = (case includeGraphPaths options of None \<Rightarrow> True | Some b \<Rightarrow> b)
      in
      case embedQuery w query of
        Inl e \<Rightarrow> Inl e
      | Inr queryEmbedding \<Rightarrow>
     (case vectorSearch (cfg w) (mongo w) queryEmbedding k of
        Inl e \<Rightarrow> Inl e
      | Inr vectorResults \<Rightarrow>
          if vectorResults = [] then
            Inr \<lparr>r_query = query, vectorChunks = [], graphEntities = [], graphChunks = [],
                 allChunks = [], graphPaths = []\<rparr>
          else
     (case extractEntityNamesFromChunks (neo w) vectorResults of
        Inl e \<Rightarrow> Inl e
      | Inr entityNames \<Rightarrow>
          (let graphExpansion = expandViaGraph (neo w) entityNames depth;
               ids = relatedChunkIds (relatedEntities graphExpansion)
           in
           case (if ids \<noteq> [] then getChunksByIds (mongo w) ids else Inr []) of
             Inl e \<Rightarrow> Inl e
           | Inr fetched \<Rightarrow>
               (let vectorChunkIds = set (map chunk_id vectorResults);
                    uniqueGraphChunks = filter (\<lambda>c. chunk_id c \<notin> vectorChunkIds) fetched
                in Inr \<lparr>r_query = query, vectorChunks = vectorResults,
                        graphEntities = relatedEntities graphExpansion,
                        graphChunks = uniqueGraphChunks,
                        allChunks = vectorResults @ uniqueGraphChunks,
                        graphPaths = (if withPaths then paths graphExpansion else [])\<rparr>)))))"


section \<open>The prompt assembler (promptBuilder.js)\<close>

definition arrow :: jsstring where
  "arrow = [(CHR 0x21, CHR 0x92)]"

definition formatGraphPath :: "graph_path \<Rightarrow> jsstring" where
  "formatGraphPath p =
     js_string (path_from p) @ (js '' '') @ arrow @ (js '' '') @ js_string (path_to p) @
     (js '' ('') @ show_nat (path_depth p) @ (js '' hop'') @ (if path_depth p > 1 then (js ''s'') else []) @ (js '')'')"

definition formatGraphPaths :: "graph_path list \<Rightarrow> jsstring list" where
  "formatGraphPaths ps = map formatGraphPath ps"

record prompt_options =
  includeChunkText :: bool
  po_includeGraphPaths :: bool
  includeProvenance :: bool
  maxChunks :: nat
  maxGraphPaths :: nat

definition default_prompt_options :: prompt_options where
  "default_prompt_options =
     \<lparr>includeChunkText = True, po_includeGraphPaths = True, includeProvenance = False,
      maxChunks = 3, maxGraphPaths = 5\<rparr>"

fun numbered_paths :: "nat \<Rightarrow> jsstring list \<Rightarrow> jsstring" where
  "numbered_paths i [] = []"
| "numbered_paths i (path # ps) =
     show_nat (i + 1) @ (js ''. '') @ path @ nl @ numbered_paths (i + 1) ps"

definition document_block :: "retrieval \<Rightarrow> prompt_options \<Rightarrow> nat \<Rightarrow> chunk \<Rightarrow> jsstring" where
  "document_block rr opts index chunk =
     (let source = (if source_title chunk = [] then (js ''Unknown'') else source_title chunk);
          page = (case page_number chunk of
                    None \<Rightarrow> []
                  | Some n \<Rightarrow> if n = 0 then [] else (js '' (page '') @ show_nat n @ (js '')''));
          chunkType = (if \<exists>gc \<in> set (graphChunks rr). chunk_id gc = chunk_id chunk
                       then (js '' [From Graph]'') else (js '' [From Vector Search]''))
      in (js ''[Document '') @ show_nat (index + 1) @ (js ''] '') @ source @ page @
         (if includeProvenance opts then chunkType else []) @ nl @
         show_opt (chunk_text chunk) @ nl @ nl)"

fun document_blocks :: "retrieval \<Rightarrow> prompt_options \<Rightarrow> nat \<Rightarrow> chunk list \<Rightarrow> jsstring" where
  "document_blocks rr opts index [] = []"
| "document_blocks rr opts index (chunk # chunks) =
     document_block rr opts index chunk @ document_blocks rr opts (index + 1) chunks"

definition constructGraphAwarePrompt :: "jsstring \<Rightarrow> retrieval \<Rightarrow> prompt_options \<Rightarrow> jsstring" where
  "constructGraphAwarePrompt query rr opts =
     (let selectedChunks = take (maxChunks opts) (allChunks rr) in
      (js ''Answer using ONLY the information below. Be concise.'') @ nl @ nl @
      (if po_includeGraphPaths opts \<and> graphPaths rr \<noteq> []
       then (js ''KNOWLEDGE GRAPH:'') @ nl @
            numbered_paths 0 (formatGraphPaths (take (maxGraphPaths opts) (graphPaths rr))) @ nl
       else []) @
      (if includeChunkText opts
       then (js ''RETRIEVED DOCUMENTS:'') @ nl @ nl @ document_blocks rr opts 0 selectedChunks
       else []) @
      (js ''QUESTION:'') @ nl @ query @ nl @ nl @ (js ''ANSWER:''))"

section \<open>The query orchestrator (queryEngine.js)\<close>

text \<open>
  The running system: the two stores with their connections, whether each server can be
  reached, the answer backend (how the promise of \<^verbatim>\<open>model.invoke(prompt)\<close> settles) and the
  number of generation calls made so far.
\<close>

record world =
  sys :: stores
  mongo_reachable :: bool
  neo_reachable :: bool
  generate :: "jsstring \<Rightarrow> llm_outcome"
  generations :: nat

text \<open>
  \<^verbatim>\<open>connectMongoDB\<close> and \<^verbatim>\<open>connectNeo4j\<close> keep an existing handle; otherwise the handle
  is assigned first and the connection is tried after, so a failed attempt leaves the handle
  set.  \<^verbatim>\<open>closeMongoDB\<close> and \<^verbatim>\<open>closeNeo4j\<close> reset the handles.
\<close>

definition connectMongoDB :: "world \<Rightarrow> world \<times> (error + unit)" where
  "connectMongoDB w =
     (if client (mongo (sys w)) then (w, Inr ())
      else if mongo_reachable w
           then (w\<lparr>sys := (sys w)\<lparr>mongo := (mongo (sys w))\<lparr>client := True, dbh := True\<rparr>\<rparr>\<rparr>, Inr ())
           else (w\<lparr>sys := (sys w)\<lparr>mongo := (mongo (sys w))\<lparr>client := True\<rparr>\<rparr>\<rparr>,
                 Inl (Error (js ''MongoDB connection failed''))))"

definition connectNeo4j :: "world \<Rightarrow> world \<times> (error + unit)" where
  "connectNeo4j w =
     (if driver (neo (sys w)) then (w, Inr ())
      else (w\<lparr>sys := (sys w)\<lparr>neo := (neo (sys w))\<lparr>driver := True\<rparr>\<rparr>\<rparr>,
            if neo_reachable w then Inr () else Inl (Error (js ''Neo4j connection failed''))))"

definition closeMongoDB :: "world \<Rightarrow> world" where
  "closeMongoDB w =
     (if client (mongo (sys w))
      then w\<lparr>sys := (sys w)\<lparr>mongo := (mongo (sys w))\<lparr>client := False, dbh := False\<rparr>\<rparr>\<rparr>
      else w)"

definition closeNeo4j :: "world \<Rightarrow> world" where
  "closeNeo4j w =
     (if driver (neo (sys w))
      then w\<lparr>sys := (sys w)\<lparr>neo := (neo (sys w))\<lparr>driver := False\<rparr>\<rparr>\<rparr>
      else w)"

text \<open>
  \<^verbatim>\<open>await model.invoke(prompt)\<close>, inside a \<^verbatim>\<open>try\<close> of its own.  The program puts no
  timer and no race around the call (the 180000 given to \<^verbatim>\<open>createAnswerModel\<close> is an
  option of the client, not a mechanism of the program): the \<^verbatim>\<open>await\<close> ends when the
  promise settles, however late, and never ends when it never settles (\<open>None\<close>).
\<close>

definition answer_invoke :: "llm_outcome \<Rightarrow> (error + jsstring) option" where
  "answer_invoke outcome =
     (case outcome of
        Completes t content \<Rightarrow> Some (Inr content)
      | Fails t msg \<Rightarrow> Some (Inl (Error msg))
      | Hangs \<Rightarrow> None)"

record query_options =
  q_topK :: "nat option"
  q_graphDepth :: "nat option"

record response =
  resp_query :: jsstring
  answer :: jsstring
  citations :: "citation list"
  resp_graphPaths :: "graph_path list"
  retrievalResults :: retrieval

definition no_information :: jsstring where
  "no_information = (js ''I could not find relevant information to answer your question.'')"

definition timeout_fallback :: jsstring where
  "timeout_fallback =
     (js ''Unable to generate answer due to timeout. Try reducing graph depth or asking a simpler question.'')"

text \<open>
  The body of the outer \<^verbatim>\<open>try\<close> of \<^verbatim>\<open>queryGraphRAG\<close>, then the function itself, whose
  \<^verbatim>\<open>finally\<close> closes both connections once the body has ended.  The result is \<open>None\<close>
  when the call never returns.
\<close>

definition query_body ::
  "world \<Rightarrow> jsstring \<Rightarrow> query_options \<Rightarrow> (world \<times> (error + response)) option" where
  "query_body w query options =
     (let k = (case q_topK options of None \<Rightarrow> cfg_topK (cfg (sys w)) | Some n \<Rightarrow> n);
          depth = (case q_graphDepth options of
                     None \<Rightarrow> cfg_graphTraversalDepth (cfg (sys w)) | Some d \<Rightarrow> d)
      in
      case connectMongoDB w of
        (w1, Inl e) \<Rightarrow> Some (w1, Inl e)
      | (w1, Inr _) \<Rightarrow>
     (case connectNeo4j w1 of
        (w2, Inl e) \<Rightarrow> Some (w2, Inl e)
      | (w2, Inr _) \<Rightarrow>
     (case hybridRetrieval (sys w2) query
             \<lparr>topK = Some k, graphDepth = Some depth, includeGraphPaths = None\<rparr> of
        Inl e \<Rightarrow> Some (w2, Inl e)
      | Inr rr \<Rightarrow>
          if allChunks rr = [] then
            Some (w2, Inr \<lparr>resp_query = query, answer = no_information, citations = [],
                           resp_graphPaths = [], retrievalResults = rr\<rparr>)
          else
            (let prompt = constructGraphAwarePrompt query rr
                            (default_prompt_options\<lparr>maxChunks := 2, maxGraphPaths := 3,
                               po_includeGraphPaths := (depth > 0), includeProvenance := False\<rparr>);
                 w3 = w2\<lparr>generations := generations w2 + 1\<rparr>
             in case answer_invoke (generate w2 prompt) of
                  None \<Rightarrow> None
                | Some settled \<Rightarrow>
                    (let answer = (case settled of
                                     Inr content \<Rightarrow> content
                                   | Inl e \<Rightarrow> timeout_fallback)
                     in Some (w3, Inr \<lparr>resp_query = query, answer = answer,
                                       citations = extractCitations (allChunks rr),
                                       resp_graphPaths = graphPaths rr,
                                       retrievalResults = rr\<rparr>))))))"

definition queryGraphRAG ::
  "world \<Rightarrow> jsstring \<Rightarrow> query_options \<Rightarrow> (world \<times> (error + response)) option" where
  "queryGraphRAG w query options =
     (case query_body w query options of
        None \<Rightarrow> None
      | Some (w', result) \<Rightarrow> Some (closeNeo4j (closeMongoDB w'), result))"


section \<open>Concrete inputs\<close>

text \<open>
  A connected store that, like Neo4j, refuses to \<^verbatim>\<open>MERGE\<close> on a missing or null
  \<^verbatim>\<open>name\<close> and executes every other statement.
\<close>

definition non_null :: "jsval \<Rightarrow> bool" where
  "non_null v = (v \<noteq> None \<and> v \<noteq> Some JNull)"

fun rejects_null_names :: "cypher_write \<Rightarrow> bool" where
  "rejects_null_names (MergeNode l n p) = non_null n"
| "rejects_null_names (MergeRel fromLabel toLabel relLabel fromName toName p) =
     (non_null fromName \<and> non_null toName)"

definition db0 :: neo4j where
  "db0 = \<lparr>driver = True, accepts = rejects_null_names, executed = [],
          clock = (js ''2024-01-01T00:00:00.000Z''), nodes = [], rels = []\<rparr>"

definition p0 :: provenance where
  "p0 = \<lparr>prov_chunk_id = (js ''c1''), prov_doc_id = (js ''d1''),
         extracted_at = (js ''2024-01-01T00:00:00.000Z'')\<rparr>"

text \<open>
  Two type strings outside ASCII: \<^verbatim>\<open>Caf\<close> followed by U+00E9 (e with acute accent) and
  \<^verbatim>\<open>Caf\<close> followed by U+20AC (the euro sign), four code units each.
\<close>

definition cafe :: jsstring where
  "cafe = (js ''Caf'') @ [(CHR 0x00, CHR 0xE9)]"

definition caf_euro :: jsstring where
  "caf_euro = (js ''Caf'') @ [(CHR 0x20, CHR 0xAC)]"

definition nameless_person :: json where
  "nameless_person = JObj [(js ''name'', JStr []), (js ''type'', JStr (js ''Person''))]"

definition alien :: json where
  "alien = JObj [(js ''name'', JStr (js ''Zorg'')), (js ''type'', JStr (js ''Alien''))]"

definition sam :: json where
  "sam = JObj [(js ''name'', JStr (js ''Sam Altman'')), (js ''type'', JStr (js ''Person''))]"

definition ceo_of_nothing :: json where
  "ceo_of_nothing =
     JObj [(js ''from'', JStr (js ''Sam Altman'')), (js ''from_type'', JStr (js ''Person'')),
           (js ''type'', JStr (js ''CEO-OF'')), (js ''to'', JStr []), (js ''to_type'', JStr cafe)]"

definition only_nameless :: extraction where
  "only_nameless = \<lparr>entities = Some [nameless_person], relationships = Some [],
                     error = None, rest = None\<rparr>"

definition only_alien :: extraction where
  "only_alien = \<lparr>entities = Some [alien], relationships = Some [],
                  error = None, rest = None\<rparr>"

definition mixed_extraction :: extraction where
  "mixed_extraction = \<lparr>entities = Some [sam, alien, nameless_person],
                        relationships = Some [ceo_of_nothing], error = None, rest = None\<rparr>"

text \<open>
  Two generation backends: one that never answers, and one that answers every prompt after
  1.2 seconds with the same text, which is either well-formed JSON or cut off in the middle.
\<close>

definition good_json :: jsstring where
  \<open>good_json = (js ''{"entities":[{"name":"Sam Altman","type":"Person"}],"relationships":[]}'')\<close>

definition truncated_json :: jsstring where
  \<open>truncated_json = (js ''{"entities":[{"name":"Sam Alt'')\<close>

definition parse_known :: "jsstring \<Rightarrow> error + json" where
  "parse_known s =
     (if s = good_json then Inr (JObj [(js ''entities'', JArr [sam]), (js ''relationships'', JArr [])])
      else Inl (SyntaxError (js ''Unterminated string in JSON'')))"

definition env_hangs :: extractor_env where
  "env_hangs = \<lparr>llm = (\<lambda>prompt. Hangs), json_parse = parse_known\<rparr>"

definition env_truncated :: extractor_env where
  "env_truncated = \<lparr>llm = (\<lambda>prompt. Completes 1200 truncated_json), json_parse = parse_known\<rparr>"

definition env_good :: extractor_env where
  "env_good = \<lparr>llm = (\<lambda>prompt. Completes 1200 good_json), json_parse = parse_known\<rparr>"

definition chunk_sam :: chunk where
  "chunk_sam = \<lparr>chunk_id = (js ''c1''), doc_id = (js ''d1''), source_title = (js ''openai''),
                page_number = Some 3, chunk_text = Some (js ''Sam Altman is the CEO of OpenAI.''),
                score = None, chunk_extraction = None\<rparr>"

definition chunk_no_text :: chunk where
  "chunk_no_text = \<lparr>chunk_id = (js ''c0''), doc_id = (js ''d1''), source_title = (js ''openai''),
                    page_number = Some 1, chunk_text = None,
                    score = None, chunk_extraction = None\<rparr>"

text \<open>
  A small corpus: the graph \<^verbatim>\<open>Sam Altman -CEO_OF-> OpenAI -PARTNERED_WITH-> Microsoft\<close>, three
  passages, and a vector index that ranks the passage about Sam Altman first and returns
  nothing else.
\<close>

definition chunk_microsoft :: chunk where
  "chunk_microsoft = \<lparr>chunk_id = (js ''g1''), doc_id = (js ''d2''), source_title = (js ''microsoft''),
                      page_number = Some 7, chunk_text = Some (js ''Microsoft builds Azure.''),
                      score = None, chunk_extraction = None\<rparr>"

definition chunk_openai :: chunk where
  "chunk_openai = \<lparr>chunk_id = (js ''g2''), doc_id = (js ''d1''), source_title = (js ''openai''),
                   page_number = Some 3, chunk_text = Some (js ''OpenAI develops GPT-4.''),
                   score = None, chunk_extraction = None\<rparr>"

definition hit_sam :: chunk where
  "hit_sam = chunk_sam\<lparr>score := Some (9 / 10)\<rparr>"

definition node_sam :: gnode where
  "node_sam = \<lparr>node_id = 0, labels = [(js ''Person'')], n_name = Some (JStr (js ''Sam Altman'')),
               n_chunk_id = Some (js ''c1''), n_doc_id = Some (js ''d1'')\<rparr>"

definition node_openai :: gnode where
  "node_openai = \<lparr>node_id = 1, labels = [(js ''Company'')], n_name = Some (JStr (js ''OpenAI'')),
                  n_chunk_id = Some (js ''g2''), n_doc_id = Some (js ''d1'')\<rparr>"

definition node_microsoft :: gnode where
  "node_microsoft = \<lparr>node_id = 2, labels = [(js ''Company'')], n_name = Some (JStr (js ''Microsoft'')),
                     n_chunk_id = Some (js ''g1''), n_doc_id = Some (js ''d2'')\<rparr>"

definition graph_sam :: neo4j where
  "graph_sam = db0\<lparr>nodes := [node_sam, node_openai, node_microsoft],
                   rels := [\<lparr>rel_id = 0, rel_src = 0, rel_type = (js ''CEO_OF''), rel_dst = 1\<rparr>,
                            \<lparr>rel_id = 1, rel_src = 1, rel_type = (js ''PARTNERED_WITH''), rel_dst = 2\<rparr>]\<rparr>"

definition stores_sam :: stores where
  "stores_sam =
     \<lparr>mongo = \<lparr>client = True, dbh = True,
               collection = [chunk_sam, chunk_microsoft, chunk_openai],
               nearest = (\<lambda>v. [hit_sam])\<rparr>,
      neo = graph_sam,
      embedQuery = (\<lambda>q. Inr [1 / 2, 1 / 4]),
      cfg = \<lparr>cfg_topK = 5, cfg_graphTraversalDepth = 2\<rparr>\<rparr>"

definition sam_question :: jsstring where
  "sam_question = (js ''How is Sam Altman related to Microsoft?'')"

definition depth_two :: retrieval_options where
  "depth_two = \<lparr>topK = Some 2, graphDepth = Some 2, includeGraphPaths = None\<rparr>"

definition depth_zero :: retrieval_options where
  "depth_zero = \<lparr>topK = Some 2, graphDepth = Some 0, includeGraphPaths = None\<rparr>"

definition sam_expected :: retrieval where
  "sam_expected =
     \<lparr>r_query = sam_question,
      vectorChunks = [hit_sam],
      graphEntities =
        [\<lparr>re_name = Some (JStr (js ''OpenAI'')), re_type = Some (js ''Company''),
          re_chunk_id = Some (js ''g2''), re_doc_id = Some (js ''d1'')\<rparr>,
         \<lparr>re_name = Some (JStr (js ''Microsoft'')), re_type = Some (js ''Company''),
          re_chunk_id = Some (js ''g1''), re_doc_id = Some (js ''d2'')\<rparr>,
         \<lparr>re_name = Some (JStr (js ''Sam Altman'')), re_type = Some (js ''Person''),
          re_chunk_id = Some (js ''c1''), re_doc_id = Some (js ''d1'')\<rparr>],
      graphChunks = [chunk_microsoft, chunk_openai],
      allChunks = [hit_sam, chunk_microsoft, chunk_openai],
      graphPaths =
        [\<lparr>path_from = Some (JStr (js ''Sam Altman'')), path_to = Some (JStr (js ''OpenAI'')), path_depth = 1\<rparr>,
         \<lparr>path_from = Some (JStr (js ''Sam Altman'')), path_to = Some (JStr (js ''Microsoft'')), path_depth = 2\<rparr>,
         \<lparr>path_from = Some (JStr (js ''OpenAI'')), path_to = Some (JStr (js ''Sam Altman'')), path_depth = 1\<rparr>,
         \<lparr>path_from = Some (JStr (js ''OpenAI'')), path_to = Some (JStr (js ''Microsoft'')), path_depth = 1\<rparr>]\<rparr>"

text \<open>The same corpus behind an answer backend that never answers.\<close>

definition world_sam :: world where
  "world_sam = \<lparr>sys = stores_sam, mongo_reachable = True, neo_reachable = True,
                 generate = (\<lambda>prompt. Hangs), generations = 0\<rparr>"

definition both_defaults :: query_options where
  "both_defaults = \<lparr>q_topK = None, q_graphDepth = None\<rparr>"

text \<open>A popular node: a hub with sixty neighbours.\<close>

definition leaf :: "nat \<Rightarrow> gnode" where
  "leaf i = \<lparr>node_id = i, labels = [(js ''Company'')], n_name = Some (JStr ((js ''Leaf'') @ show_nat i)),
             n_chunk_id = Some ((js ''chunk'') @ show_nat i), n_doc_id = Some (js ''d1'')\<rparr>"

definition hub :: gnode where
  "hub = \<lparr>node_id = 0, labels = [(js ''Person'')], n_name = Some (JStr (js ''Hub'')),
          n_chunk_id = None, n_doc_id = None\<rparr>"

definition star :: neo4j where
  "star = db0\<lparr>nodes := hub # map leaf [1..<61],
              rels := map (\<lambda>i. \<lparr>rel_id = i, rel_src = 0, rel_type = (js ''INVESTED_IN''), rel_dst = i\<rparr>)
                          [1..<61]\<rparr>"

text \<open>The same corpus behind an answer backend that answers after 200 seconds.\<close>

definition late_answer :: jsstring where
  "late_answer = (js ''Sam Altman is the CEO of OpenAI, which partners with Microsoft.'')"

definition world_late :: world where
  "world_late = world_sam\<lparr>generate := (\<lambda>prompt. Completes 200000 late_answer)\<rparr>"

definition sam_citations :: "citation list" where
  "sam_citations =
     [\<lparr>cit_source_title = (js ''openai''), cit_page_number = Some 3,
       cit_doc_id = (js ''d1''), cit_chunk_id = (js ''c1'')\<rparr>,
      \<lparr>cit_source_title = (js ''microsoft''), cit_page_number = Some 7,
       cit_doc_id = (js ''d2''), cit_chunk_id = (js ''g1'')\<rparr>]"


section \<open>Properties of the write path\<close>

subsection \<open>What one call leaves in the store\<close>

lemma replace_nonword_word: "c \<in> set (replace_nonword s) \<Longrightarrow> word_char c"
  by (auto simp: replace_nonword_def word_char_def)

lemma replace_nonword_same:
  "list_all2 (\<lambda>a b. a = b \<or> (\<not> word_char a \<and> \<not> word_char b)) s t \<Longrightarrow>
   replace_nonword s = replace_nonword t"
  unfolding replace_nonword_def
  by (induction s t rule: list_all2_induct) auto

lemma sanitizeLabel_Inr:
  "sanitizeLabel v = Inr l \<Longrightarrow> \<exists>s. v = Some (JStr s) \<and> l = replace_nonword s"
  by (cases v rule: sanitizeLabel.cases) auto

lemma run_write_Inr:
  "run_write db stmt = (db', Inr u) \<Longrightarrow> db' = db\<lparr>executed := executed db @ [stmt]\<rparr>"
  by (auto simp: run_write_def split: if_splits)


lemma createRelationship_Inr:
  assumes "createRelationship db fromType fromName relType toType toName properties = (db', Inr u)"
  shows "\<exists>ft tt rt. fromType = Some (JStr ft) \<and> toType = Some (JStr tt) \<and> relType = Some (JStr rt) \<and>
     db' = db\<lparr>executed := executed db @
             [MergeRel (replace_nonword ft) (replace_nonword tt) (replace_nonword rt)
                fromName toName properties]\<rparr>"
  using assms unfolding createRelationship_def
  by (auto split: sum.splits dest!: sanitizeLabel_Inr run_write_Inr)




lemmas create_defs =
  createPersonNode_def createCompanyNode_def createProductNode_def createFieldNode_def









lemma run_write_keeps: "run_write db stmt = (db', res) \<Longrightarrow> driver db' = driver db \<and> accepts db' = accepts db"
  by (auto simp: run_write_def split: if_splits)





lemmas store_eval =
  storeExtraction_def store_entity_def store_relationship_def with_name_def create_defs
  createNode_def createRelationship_def getSession_def run_write_def array_of_def
  replace_nonword_def word_char_def in_range_def non_null_def Let_def js_def unit_of_def

lemmas example_defs =
  db0_def p0_def nameless_person_def alien_def sam_def ceo_of_nothing_def
  only_nameless_def only_alien_def mixed_extraction_def


subsection \<open>Sanitized labels\<close>

text \<open>
  C9.  When \<^verbatim>\<open>createRelationship\<close> sends its upsert, the two node labels and the
  relationship type spliced into it are the sanitized type strings, and every code unit of
  them is a letter, a digit or an underscore: \<^verbatim>\<open>sanitizeLabel\<close> keeps the code units of
  \<^verbatim>\<open>[a-zA-Z0-9_]\<close> and writes one underscore for each other code unit, so two types that
  differ only at such code units give the same label.  (A type that is not a string makes the
  call throw before anything is sent.)
\<close>

theorem createRelationship_labels_are_word_characters:
  "(createRelationship db fromType fromName relType toType toName properties = (db', Inr u) \<longrightarrow>
     (\<exists>fromLabel toLabel relLabel.
        executed db' = executed db @ [MergeRel fromLabel toLabel relLabel fromName toName properties] \<and>
        sanitizeLabel fromType = Inr fromLabel \<and> sanitizeLabel toType = Inr toLabel \<and>
        sanitizeLabel relType = Inr relLabel \<and>
        (\<forall>c \<in> set (fromLabel @ toLabel @ relLabel). word_char c)))
   \<and> sanitizeLabel (Some (JStr s)) = Inr (map (\<lambda>c. if word_char c then c else unit_of CHR ''_'') s)
   \<and> (list_all2 (\<lambda>a b. a = b \<or> (\<not> word_char a \<and> \<not> word_char b)) s t \<longrightarrow>
        sanitizeLabel (Some (JStr s)) = sanitizeLabel (Some (JStr t)))"
proof (intro conjI impI)
  assume "createRelationship db fromType fromName relType toType toName properties = (db', Inr u)"
  from createRelationship_Inr[OF this] obtain ft tt rt where
    h: "fromType = Some (JStr ft)" "toType = Some (JStr tt)" "relType = Some (JStr rt)"
     "db' = db\<lparr>executed := executed db @
              [MergeRel (replace_nonword ft) (replace_nonword tt) (replace_nonword rt)
                 fromName toName properties]\<rparr>"
    by blast
  show "\<exists>fromLabel toLabel relLabel.
        executed db' = executed db @ [MergeRel fromLabel toLabel relLabel fromName toName properties] \<and>
        sanitizeLabel fromType = Inr fromLabel \<and> sanitizeLabel toType = Inr toLabel \<and>
        sanitizeLabel relType = Inr relLabel \<and>
        (\<forall>c \<in> set (fromLabel @ toLabel @ relLabel). word_char c)"
    using h by (auto dest: replace_nonword_word)
next
  show "sanitizeLabel (Some (JStr s)) = Inr (map (\<lambda>c. if word_char c then c else unit_of CHR ''_'') s)"
    by (simp add: replace_nonword_def)
next
  assume "list_all2 (\<lambda>a b. a = b \<or> (\<not> word_char a \<and> \<not> word_char b)) s t"
  then show "sanitizeLabel (Some (JStr s)) = sanitizeLabel (Some (JStr t))"
    by (simp add: replace_nonword_same)
qed

theorem createRelationship_labels_are_word_characters_witness:
  "createRelationship db0 (Some (JStr (js ''Person''))) (Some (JStr (js ''Sam Altman'')))
      (Some (JStr (js ''CEO-OF''))) (Some (JStr cafe)) (Some (JStr (js ''OpenAI''))) p0
   = (db0\<lparr>executed := [MergeRel (js ''Person'') (js ''Caf_'') (js ''CEO_OF'')
                          (Some (JStr (js ''Sam Altman''))) (Some (JStr (js ''OpenAI''))) p0]\<rparr>, Inr ())
   \<and> list_all word_char (js ''Person'' @ (js ''Caf_'') @ (js ''CEO_OF''))
   \<and> list_all2 (\<lambda>a b. a = b \<or> (\<not> word_char a \<and> \<not> word_char b)) cafe caf_euro
   \<and> length cafe = 4
   \<and> sanitizeLabel (Some (JStr cafe)) = Inr (js ''Caf_'')
   \<and> sanitizeLabel (Some (JStr caf_euro)) = Inr (js ''Caf_'')"
proof -
  let ?db1 = "db0\<lparr>executed := [MergeRel (js ''Person'') (js ''Caf_'') (js ''CEO_OF'')
                          (Some (JStr (js ''Sam Altman''))) (Some (JStr (js ''OpenAI''))) p0]\<rparr>"
  have san: "sanitizeLabel (Some (JStr (js ''Person''))) = Inr (js ''Person'')"
    "sanitizeLabel (Some (JStr cafe)) = Inr (js ''Caf_'')"
    "sanitizeLabel (Some (JStr (js ''CEO-OF''))) = Inr (js ''CEO_OF'')"
    by (simp_all add: replace_nonword_def word_char_def in_range_def js_def unit_of_def cafe_def)
  have run: "createRelationship db0 (Some (JStr (js ''Person''))) (Some (JStr (js ''Sam Altman'')))
      (Some (JStr (js ''CEO-OF''))) (Some (JStr cafe)) (Some (JStr (js ''OpenAI''))) p0
   = (?db1, Inr ())"
    using san
    by (simp add: createRelationship_def getSession_def run_write_def db0_def non_null_def
          del: sanitizeLabel.simps)
  have same: "list_all2 (\<lambda>a b. a = b \<or> (\<not> word_char a \<and> \<not> word_char b)) cafe caf_euro"
    by (simp add: word_char_def in_range_def js_def unit_of_def cafe_def caf_euro_def)
  have len: "length cafe = 4"
    by (simp add: cafe_def js_def)
  note inst = createRelationship_labels_are_word_characters
         [of db0 "Some (JStr (js ''Person''))" "Some (JStr (js ''Sam Altman''))"
             "Some (JStr (js ''CEO-OF''))" "Some (JStr cafe)" "Some (JStr (js ''OpenAI''))"
             p0 ?db1 "()" cafe caf_euro]
  from inst[THEN conjunct1, THEN mp, OF run] obtain fromLabel toLabel relLabel where
    l: "sanitizeLabel (Some (JStr (js ''Person''))) = Inr fromLabel"
       "sanitizeLabel (Some (JStr cafe)) = Inr toLabel"
       "sanitizeLabel (Some (JStr (js ''CEO-OF''))) = Inr relLabel"
       "\<forall>c \<in> set (fromLabel @ toLabel @ relLabel). word_char c"
    by blast
  from l(1-3) san have "fromLabel = (js ''Person'')" "toLabel = (js ''Caf_'')" "relLabel = (js ''CEO_OF'')"
    by simp_all
  with l(4) have words: "list_all word_char (js ''Person'' @ (js ''Caf_'') @ (js ''CEO_OF''))"
    unfolding list_all_iff by simp
  from inst[THEN conjunct2, THEN conjunct2, THEN mp, OF same] san(2)
  have "sanitizeLabel (Some (JStr caf_euro)) = Inr (js ''Caf_'')"
    by simp
  with run same san(2) words len show ?thesis
    by blast
qed

subsection \<open>What storeExtraction writes\<close>




text \<open>
  C8 at the input \<^verbatim>\<open>{entities: [{name: "Zorg", type: "Alien"}], relationships: []}\<close>:
  no case of the \<^verbatim>\<open>switch\<close> matches, nothing is sent to the store, and the counter
  after the \<^verbatim>\<open>switch\<close> still reports one stored entity.
\<close>

theorem storeExtraction_counts_skipped_entity:
  "storeExtraction db0 only_alien (js ''c1'') (js ''d1'')
     = (db0, Inr \<lparr>stored_entities = 1, stored_relationships = 0\<rparr>)
   \<and> executed db0 = []"
  by (simp add: store_eval example_defs)


section \<open>Properties of the extractor\<close>

lemma validate_structure_arrays:
  "validate_structure v = Inr x \<Longrightarrow> entities x \<noteq> None \<and> relationships x \<noteq> None"
  by (cases v) auto

lemma extract_total:
  "\<exists>x. extractEntitiesAndRelationships env (Some t) timeout = Inr x"
  by (simp add: extractEntitiesAndRelationships_def createExtractionPrompt_def)

lemma extract_arrays:
  assumes "extractEntitiesAndRelationships env text timeout = Inr x"
  shows "entities x \<noteq> None \<and> relationships x \<noteq> None"
  using assms
  by (auto simp: extractEntitiesAndRelationships_def empty_extraction_def
        split: sum.splits dest: validate_structure_arrays)

lemma race_timed_out:
  "timed_out outcome timeout \<Longrightarrow> race outcome timeout = Inl (Error (js ''Extraction timeout''))"
  by (cases outcome) (simp_all add: timed_out_def race_def)

lemma extract_loop_out:
  "chunksWithExtractions (extract_loop env st cs)
     = chunksWithExtractions st @
       map (\<lambda>c. (c, case extractEntitiesAndRelationships env (chunk_text c) 45000 of
                       Inr x \<Rightarrow> x | Inl e \<Rightarrow> empty_extraction (message e))) cs"
proof (induction cs arbitrary: st)
  case Nil
  then show ?case by simp
next
  case (Cons c cs)
  show ?case
    by (simp add: Cons.IH extract_step_def split: sum.splits)
qed

lemma extractFromChunks_map:
  "extractFromChunks env cs =
     map (\<lambda>c. (c, case extractEntitiesAndRelationships env (chunk_text c) 45000 of
                       Inr x \<Rightarrow> x | Inl e \<Rightarrow> empty_extraction (message e))) cs"
  by (simp add: extractFromChunks_def extract_loop_out)

text \<open>
  C4.  Called on a text, \<^verbatim>\<open>extractEntitiesAndRelationships\<close> returns an extraction and
  never throws; its two fields are arrays.  When the race is lost to the timer the result is
  \<^verbatim>\<open>{entities: [], relationships: [], error: "Extraction timeout"}\<close>, and when the
  response does not parse as JSON it is the same empty extraction with the parser's message.
\<close>

theorem extractEntitiesAndRelationships_never_throws:
  "\<exists>x. extractEntitiesAndRelationships env (Some t) timeout = Inr x
     \<and> entities x \<noteq> None \<and> relationships x \<noteq> None
     \<and> (\<forall>prompt. createExtractionPrompt (Some t) = Inr prompt \<longrightarrow>
          (timed_out (llm env prompt) timeout \<longrightarrow>
             x = \<lparr>entities = Some [], relationships = Some [],
                  error = Some (JStr (js ''Extraction timeout'')), rest = None\<rparr>)
        \<and> (\<forall>content e. race (llm env prompt) timeout = Inr content
                        \<and> json_parse env content = Inl e \<longrightarrow>
             x = \<lparr>entities = Some [], relationships = Some [],
                  error = Some (JStr (message e)), rest = None\<rparr>))"
proof -
  obtain x where x: "extractEntitiesAndRelationships env (Some t) timeout = Inr x"
    using extract_total by blast
  from extract_arrays[OF x] have "entities x \<noteq> None \<and> relationships x \<noteq> None" by simp
  moreover have "\<forall>prompt. createExtractionPrompt (Some t) = Inr prompt \<longrightarrow>
          (timed_out (llm env prompt) timeout \<longrightarrow>
             x = \<lparr>entities = Some [], relationships = Some [],
                  error = Some (JStr (js ''Extraction timeout'')), rest = None\<rparr>)
        \<and> (\<forall>content e. race (llm env prompt) timeout = Inr content
                        \<and> json_parse env content = Inl e \<longrightarrow>
             x = \<lparr>entities = Some [], relationships = Some [],
                  error = Some (JStr (message e)), rest = None\<rparr>)"
    using x
    by (auto simp: extractEntitiesAndRelationships_def empty_extraction_def dest: race_timed_out)
  ultimately show ?thesis using x by blast
qed

theorem extractEntitiesAndRelationships_never_throws_witness:
  "extractEntitiesAndRelationships env_hangs (Some (js ''Sam Altman is the CEO of OpenAI.'')) 45000
     = Inr \<lparr>entities = Some [], relationships = Some [],
            error = Some (JStr (js ''Extraction timeout'')), rest = None\<rparr>
   \<and> extractEntitiesAndRelationships env_truncated (Some (js ''Sam Altman is the CEO of OpenAI.'')) 45000
     = Inr \<lparr>entities = Some [], relationships = Some [],
            error = Some (JStr (js ''Unterminated string in JSON'')), rest = None\<rparr>"
proof -
  let ?t = "(js ''Sam Altman is the CEO of OpenAI.'')"
  obtain prompt where p: "createExtractionPrompt (Some ?t) = Inr prompt"
    by (simp add: createExtractionPrompt_def)
  have r1: "timed_out (llm env_hangs prompt) 45000"
    by (simp add: timed_out_def env_hangs_def)
  have r2: "race (llm env_truncated prompt) 45000 = Inr truncated_json
            \<and> json_parse env_truncated truncated_json = Inl (SyntaxError (js ''Unterminated string in JSON''))"
    by (simp add: race_def env_truncated_def parse_known_def truncated_json_def good_json_def
          js_def unit_of_def)
  from extractEntitiesAndRelationships_never_throws[of env_hangs ?t 45000] p r1
  have a: "extractEntitiesAndRelationships env_hangs (Some ?t) 45000
     = Inr \<lparr>entities = Some [], relationships = Some [],
            error = Some (JStr (js ''Extraction timeout'')), rest = None\<rparr>"
    by blast
  from extractEntitiesAndRelationships_never_throws[of env_truncated ?t 45000] p r2
  obtain x where "extractEntitiesAndRelationships env_truncated (Some ?t) 45000 = Inr x"
    "x = \<lparr>entities = Some [], relationships = Some [],
            error = Some (JStr (message (SyntaxError (js ''Unterminated string in JSON'')))), rest = None\<rparr>"
    by blast
  then have b: "extractEntitiesAndRelationships env_truncated (Some ?t) 45000
     = Inr \<lparr>entities = Some [], relationships = Some [],
            error = Some (JStr (js ''Unterminated string in JSON'')), rest = None\<rparr>"
    by simp
  from a b show ?thesis by (rule conjI)
qed

text \<open>
  C10.  \<^verbatim>\<open>extractFromChunks\<close> returns one record per input chunk, in input order, each
  holding the chunk and the extraction computed from that chunk alone: the extractor's result
  when it returns, and \<^verbatim>\<open>{entities: [], relationships: [], error}\<close> when it throws.  In
  every record both fields are arrays.
\<close>

theorem extractFromChunks_one_record_per_chunk:
  "length (extractFromChunks env chunks) = length chunks
   \<and> map fst (extractFromChunks env chunks) = chunks
   \<and> (\<forall>i < length chunks.
        snd (extractFromChunks env chunks ! i)
          = (case extractEntitiesAndRelationships env (chunk_text (chunks ! i)) 45000 of
               Inr x \<Rightarrow> x
             | Inl e \<Rightarrow> \<lparr>entities = Some [], relationships = Some [],
                         error = Some (JStr (message e)), rest = None\<rparr>))
   \<and> (\<forall>x \<in> set (map snd (extractFromChunks env chunks)).
        entities x \<noteq> None \<and> relationships x \<noteq> None)"
proof (intro conjI allI impI ballI)
  show "length (extractFromChunks env chunks) = length chunks"
    by (simp add: extractFromChunks_map)
  show "map fst (extractFromChunks env chunks) = chunks"
    by (simp add: extractFromChunks_map comp_def)
next
  fix i assume "i < length chunks"
  then show "snd (extractFromChunks env chunks ! i)
          = (case extractEntitiesAndRelationships env (chunk_text (chunks ! i)) 45000 of
               Inr x \<Rightarrow> x
             | Inl e \<Rightarrow> \<lparr>entities = Some [], relationships = Some [],
                         error = Some (JStr (message e)), rest = None\<rparr>)"
    by (simp add: extractFromChunks_map empty_extraction_def split: sum.splits)
next
  fix x assume "x \<in> set (map snd (extractFromChunks env chunks))"
  then obtain c where c: "c \<in> set chunks"
    and x: "x = (case extractEntitiesAndRelationships env (chunk_text c) 45000 of
                       Inr x \<Rightarrow> x | Inl e \<Rightarrow> empty_extraction (message e))"
    by (auto simp: extractFromChunks_map)
  have "entities x \<noteq> None \<and> relationships x \<noteq> None"
  proof (cases "extractEntitiesAndRelationships env (chunk_text c) 45000")
    case (Inl e)
    with x show ?thesis by (simp add: empty_extraction_def)
  next
    case (Inr y)
    with x extract_arrays[OF Inr] show ?thesis by simp
  qed
  then show "entities x \<noteq> None" "relationships x \<noteq> None"
    by simp_all
qed

theorem extractFromChunks_one_record_per_chunk_witness:
  "extractFromChunks env_good [chunk_no_text, chunk_sam]
     = [(chunk_no_text,
         \<lparr>entities = Some [], relationships = Some [],
          error = Some (JStr (js ''Cannot read properties of undefined (reading substring)'')), rest = None\<rparr>),
        (chunk_sam,
         \<lparr>entities = Some [sam], relationships = Some [], error = None,
          rest = Some (JObj [(js ''entities'', JArr [sam]), (js ''relationships'', JArr [])])\<rparr>)]"
proof -
  let ?out = "extractFromChunks env_good [chunk_no_text, chunk_sam]"
  note inst = extractFromChunks_one_record_per_chunk[of env_good "[chunk_no_text, chunk_sam]"]
  have e0: "extractEntitiesAndRelationships env_good (chunk_text chunk_no_text) 45000
             = Inl (TypeError (js ''Cannot read properties of undefined (reading substring)''))"
    by (simp add: extractEntitiesAndRelationships_def createExtractionPrompt_def chunk_no_text_def)
  have e1: "extractEntitiesAndRelationships env_good (chunk_text chunk_sam) 45000
             = Inr \<lparr>entities = Some [sam], relationships = Some [], error = None,
                  rest = Some (JObj [(js ''entities'', JArr [sam]), (js ''relationships'', JArr [])])\<rparr>"
    by (simp add: extractEntitiesAndRelationships_def createExtractionPrompt_def chunk_sam_def
          race_def env_good_def parse_known_def coerce_array_def js_def unit_of_def)
  from inst have len: "length ?out = 2" and fs: "map fst ?out = [chunk_no_text, chunk_sam]"
    and sn: "\<forall>i < length [chunk_no_text, chunk_sam].
        snd (?out ! i)
          = (case extractEntitiesAndRelationships env_good (chunk_text ([chunk_no_text, chunk_sam] ! i)) 45000 of
               Inr x \<Rightarrow> x
             | Inl e \<Rightarrow> \<lparr>entities = Some [], relationships = Some [],
                         error = Some (JStr (message e)), rest = None\<rparr>)"
    by simp_all
  have two: "length xs = 2 \<Longrightarrow> \<exists>a b. xs = [a, b]" for xs :: "(chunk \<times> extraction) list"
    by (cases xs; cases "tl xs") auto
  from two[OF len] obtain a b where ab: "?out = [a, b]"
    by blast
  from sn[rule_format, of 0] e0 ab
  have "snd a = \<lparr>entities = Some [], relationships = Some [],
          error = Some (JStr (js ''Cannot read properties of undefined (reading substring)'')), rest = None\<rparr>"
    by simp
  moreover from sn[rule_format, of 1] e1 ab
  have "snd b = \<lparr>entities = Some [sam], relationships = Some [], error = None,
          rest = Some (JObj [(js ''entities'', JArr [sam]), (js ''relationships'', JArr [])])\<rparr>"
    by simp
  moreover from fs ab have "fst a = chunk_no_text" "fst b = chunk_sam" by simp_all
  ultimately show ?thesis using ab by (simp add: prod_eq_iff)
qed


section \<open>Citations are deduplicated by document and page\<close>

lemma digit_char_cases:
  "d < 10 \<Longrightarrow> d = 0 \<or> d = 1 \<or> d = 2 \<or> d = 3 \<or> d = 4 \<or> d = 5 \<or> d = 6 \<or> d = 7 \<or> d = 8 \<or> d = (9::nat)"
  by arith

lemma digit_char_in: "d < 10 \<Longrightarrow> digit_char d \<in> set (js ''0123456789'')"
proof -
  assume "d < 10"
  then have "''0123456789'' ! d \<in> set ''0123456789''" by (intro nth_mem) simp
  then have "unit_of (''0123456789'' ! d) \<in> unit_of ` set ''0123456789''" by (rule imageI)
  then show ?thesis unfolding digit_char_def js_def set_map .
qed

lemma digit_char_inj: "d < 10 \<Longrightarrow> e < 10 \<Longrightarrow> digit_char d = digit_char e \<Longrightarrow> d = e"
proof -
  assume "d < 10" "e < 10" "digit_char d = digit_char e"
  then have "''0123456789'' ! d = ''0123456789'' ! e"
    by (simp add: digit_char_def unit_of_def)
  moreover have "distinct ''0123456789''" by simp
  ultimately show "d = e"
    using \<open>d < 10\<close> \<open>e < 10\<close> by (simp add: nth_eq_iff_index_eq)
qed

lemma show_nat_digits: "set (show_nat n) \<subseteq> set (js ''0123456789'')"
proof (induction n rule: show_nat.induct)
  case (1 n)
  show ?case
  proof (cases "n < 10")
    case True
    then show ?thesis using digit_char_in[of n] by (subst show_nat.simps) simp
  next
    case False
    have "n mod 10 < 10" by simp
    from digit_char_in[OF this] 1[OF False] False show ?thesis
      by (subst show_nat.simps) simp
  qed
qed

lemma show_nat_nonempty: "show_nat n \<noteq> []"
  by (subst show_nat.simps) simp

lemma show_nat_inj: "show_nat n = show_nat m \<Longrightarrow> n = m"
proof (induction n arbitrary: m rule: show_nat.induct)
  case (1 n)
  show ?case
  proof (cases "n < 10")
    case True
    then have n1: "show_nat n = [digit_char n]" by (subst show_nat.simps) simp
    show ?thesis
    proof (cases "m < 10")
      case m: True
      then have "show_nat m = [digit_char m]" by (subst show_nat.simps) simp
      with n1 "1.prems" True m show ?thesis by (auto dest: digit_char_inj)
    next
      case m: False
      then have "show_nat m = show_nat (m div 10) @ [digit_char (m mod 10)]"
        by (subst show_nat.simps) simp
      with n1 "1.prems" show_nat_nonempty[of "m div 10"] show ?thesis by simp
    qed
  next
    case False
    then have n1: "show_nat n = show_nat (n div 10) @ [digit_char (n mod 10)]"
      by (subst show_nat.simps) simp
    show ?thesis
    proof (cases "m < 10")
      case m: True
      then have "show_nat m = [digit_char m]" by (subst show_nat.simps) simp
      with n1 "1.prems" show_nat_nonempty[of "n div 10"] show ?thesis by simp
    next
      case m: False
      then have "show_nat m = show_nat (m div 10) @ [digit_char (m mod 10)]"
        by (subst show_nat.simps) simp
      with n1 "1.prems" have a: "show_nat (n div 10) = show_nat (m div 10)"
        and b: "digit_char (n mod 10) = digit_char (m mod 10)" by simp_all
      from "1.IH"[OF False a] have "n div 10 = m div 10" .
      moreover from b have "n mod 10 = m mod 10" by (auto dest!: digit_char_inj[rotated 2])
      ultimately show ?thesis by (metis div_mult_mod_eq)
    qed
  qed
qed

lemma colon_not_digit: "unit_of CHR '':'' \<notin> set (js ''0123456789'')"
  by (simp add: js_def unit_of_def)

lemma undefined_not_digits: "\<not> set (js ''undefined'') \<subseteq> set (js ''0123456789'')"
  by (simp add: js_def unit_of_def)

lemma show_page_no_colon: "unit_of CHR '':'' \<notin> set (show_page p)"
proof (cases p)
  case None
  then show ?thesis by (simp add: show_page_def js_def unit_of_def)
next
  case (Some n)
  with show_nat_digits[of n] colon_not_digit show ?thesis by (auto simp: show_page_def)
qed

lemma show_page_inj: "show_page p = show_page q \<Longrightarrow> p = q"
proof (cases p; cases q)
  fix n assume "p = Some n" "q = None" "show_page p = show_page q"
  then have "show_nat n = (js ''undefined'')" by (simp add: show_page_def)
  with show_nat_digits[of n] undefined_not_digits show ?thesis by simp
next
  fix n assume "q = Some n" "p = None" "show_page p = show_page q"
  then have "show_nat n = (js ''undefined'')" by (simp add: show_page_def)
  with show_nat_digits[of n] undefined_not_digits show ?thesis by simp
qed (auto simp: show_page_def dest: show_nat_inj)

lemma split_at_last:
  assumes "xs @ a # ys = xs' @ a # ys'" "a \<notin> set ys" "a \<notin> set ys'"
  shows "xs = xs' \<and> ys = ys'"
proof -
  have tw0: "a \<notin> set us \<Longrightarrow> takeWhile (\<lambda>x. x \<noteq> a) (us @ a # vs) = us" for us vs
    by (induction us) auto
  have tw: "takeWhile (\<lambda>x. x \<noteq> a) (rev zs @ a # rev ws) = rev zs" if "a \<notin> set zs" for zs ws
    using that by (intro tw0) simp
  from assms(1) have "rev (xs @ a # ys) = rev (xs' @ a # ys')" by simp
  then have "rev ys @ a # rev xs = rev ys' @ a # rev xs'" by simp
  then have "takeWhile (\<lambda>x. x \<noteq> a) (rev ys @ a # rev xs)
           = takeWhile (\<lambda>x. x \<noteq> a) (rev ys' @ a # rev xs')" by simp
  with tw[OF assms(2)] tw[OF assms(3)] have "ys = ys'" by simp
  with assms(1) show ?thesis by simp
qed

lemma citation_key_inj: "citation_key c = citation_key c' \<longleftrightarrow> chunk_page c = chunk_page c'"
proof
  assume "citation_key c = citation_key c'"
  then have "doc_id c @ unit_of CHR '':'' # show_page (page_number c)
           = doc_id c' @ unit_of CHR '':'' # show_page (page_number c')"
    by (simp add: citation_key_def js_def)
  from split_at_last[OF this show_page_no_colon show_page_no_colon]
  show "chunk_page c = chunk_page c'" by (auto simp: chunk_page_def dest: show_page_inj)
next
  assume "chunk_page c = chunk_page c'"
  then show "citation_key c = citation_key c'" by (simp add: chunk_page_def citation_key_def)
qed

lemma citation_page_of: "citation_page (citation_of c) = chunk_page c"
  by (simp add: citation_page_def citation_of_def chunk_page_def)

lemma citations_loop_inv:
  assumes "\<And>c. citation_key c \<in> seen \<longleftrightarrow> chunk_page c \<in> set (map citation_page cits)"
      and "distinct (map citation_page cits)"
  shows "distinct (map citation_page (citations_loop cs seen cits))
       \<and> set (map citation_page (citations_loop cs seen cits))
           = set (map citation_page cits) \<union> set (map chunk_page cs)
       \<and> set (citations_loop cs seen cits) \<subseteq> set cits \<union> citation_of ` set cs"
  using assms
proof (induction cs arbitrary: seen cits)
  case Nil
  then show ?case by simp
next
  case (Cons c cs)
  show ?case
  proof (cases "citation_key c \<in> seen")
    case True
    with Cons.prems(1) have "chunk_page c \<in> set (map citation_page cits)" by blast
    with Cons.IH[OF Cons.prems] True show ?thesis by auto
  next
    case False
    with Cons.prems(1) have new: "chunk_page c \<notin> set (map citation_page cits)" by blast
    have a: "\<And>d. citation_key d \<in> insert (citation_key c) seen
               \<longleftrightarrow> chunk_page d \<in> set (map citation_page (cits @ [citation_of c]))"
      using Cons.prems(1) by (auto simp: citation_key_inj citation_page_of)
    have b: "distinct (map citation_page (cits @ [citation_of c]))"
      using Cons.prems(2) new by (simp add: citation_page_of)
    from Cons.IH[OF a b] False show ?thesis by (auto simp: citation_page_of)
  qed
qed

text \<open>
  C5.  The citation list has exactly one entry for each (document identifier, page number)
  pair that occurs among the passages: no pair occurs twice among the citations, the pairs of
  the citations are the pairs of the passages, and every citation is built from one of the
  passages.  (The string key \<^verbatim>\<open>doc_id:page_number\<close> determines the pair, because a printed
  page number contains no colon.)
\<close>

theorem extractCitations_one_per_page:
  "distinct (map citation_page (extractCitations chunks))
   \<and> set (map citation_page (extractCitations chunks)) = set (map chunk_page chunks)
   \<and> set (extractCitations chunks) \<subseteq> citation_of ` set chunks"
  using citations_loop_inv[of "{}" "[]" chunks] by (simp add: extractCitations_def)


section \<open>Properties of hybrid retrieval\<close>

subsection \<open>The traversal cap\<close>

lemma findRelatedEntities_cap:
  "findRelatedEntities db entityName depth = Inr rows \<Longrightarrow> length rows \<le> 50"
  by (auto simp: findRelatedEntities_def split: sum.splits)

lemma expand_row_lengths:
  "length (relatedEntities (expand_row entityName st rel)) \<le> length (relatedEntities st) + 1"
  "length (paths (expand_row entityName st rel)) = length (paths st) + 1"
  by (simp_all add: expand_row_def Let_def)

lemma expand_rows_lengths:
  "length (relatedEntities (foldl (expand_row entityName) st rows))
     \<le> length (relatedEntities st) + length rows
   \<and> length (paths (foldl (expand_row entityName) st rows)) = length (paths st) + length rows"
proof (induction rows arbitrary: st)
  case Nil
  then show ?case by simp
next
  case (Cons row rows)
  from Cons.IH[of "expand_row entityName st row"] expand_row_lengths[of entityName st row]
  show ?case by simp
qed

lemma expand_entity_lengths:
  "length (relatedEntities (expand_entity db depth st entityName)) \<le> length (relatedEntities st) + 50
   \<and> length (paths (expand_entity db depth st entityName)) \<le> length (paths st) + 50"
proof (cases "findRelatedEntities db entityName depth")
  case (Inl e)
  then show ?thesis by (simp add: expand_entity_def)
next
  case (Inr rows)
  from findRelatedEntities_cap[OF Inr] expand_rows_lengths[of entityName st rows] Inr
  show ?thesis by (simp add: expand_entity_def)
qed

lemma expand_entities_lengths:
  "length (relatedEntities (foldl (expand_entity db depth) st entityNames))
     \<le> length (relatedEntities st) + 50 * length entityNames
   \<and> length (paths (foldl (expand_entity db depth) st entityNames))
     \<le> length (paths st) + 50 * length entityNames"
proof (induction entityNames arbitrary: st)
  case Nil
  then show ?case by simp
next
  case (Cons n ns)
  from Cons.IH[of "expand_entity db depth st n"] expand_entity_lengths[of db depth st n]
  show ?case by simp
qed

text \<open>
  C7.  One call of \<^verbatim>\<open>findRelatedEntities\<close> returns at most 50 records, because the query
  itself ends with \<^verbatim>\<open>LIMIT 50\<close>; so the expansion of one starting entity adds at most 50
  related entities and at most 50 paths, whatever the degree of the entity in the graph, and
  an expansion from \<open>n\<close> starting entities holds at most \<open>50 * n\<close> related entities.
\<close>

theorem findRelatedEntities_caps_expansion:
  "(case findRelatedEntities db entityName depth of Inl e \<Rightarrow> True | Inr rows \<Rightarrow> length rows \<le> 50)
   \<and> length (relatedEntities (expand_entity db depth st entityName)) \<le> length (relatedEntities st) + 50
   \<and> length (paths (expand_entity db depth st entityName)) \<le> length (paths st) + 50
   \<and> length (relatedEntities (expandViaGraph db [entityName] depth)) \<le> 50
   \<and> length (relatedEntities (expandViaGraph db entityNames depth)) \<le> 50 * length entityNames"
proof (intro conjI)
  show "case findRelatedEntities db entityName depth of Inl e \<Rightarrow> True | Inr rows \<Rightarrow> length rows \<le> 50"
    by (auto split: sum.splits dest: findRelatedEntities_cap)
  show "length (relatedEntities (expand_entity db depth st entityName)) \<le> length (relatedEntities st) + 50"
    "length (paths (expand_entity db depth st entityName)) \<le> length (paths st) + 50"
    using expand_entity_lengths[of db depth st entityName] by simp_all
  show "length (relatedEntities (expandViaGraph db [entityName] depth)) \<le> 50"
    using expand_entities_lengths
            [of db depth "\<lparr>relatedEntities = [], paths = [], seenEntities = {}\<rparr>" "[entityName]"]
    by (simp add: expandViaGraph_def)
  show "length (relatedEntities (expandViaGraph db entityNames depth)) \<le> 50 * length entityNames"
    using expand_entities_lengths
            [of db depth "\<lparr>relatedEntities = [], paths = [], seenEntities = {}\<rparr>" entityNames]
    by (simp add: expandViaGraph_def)
qed

theorem findRelatedEntities_caps_expansion_witness:
  "length (match_related star (Some (JStr (js ''Hub''))) 1) = 60
   \<and> length (relatedEntities (expandViaGraph star [Some (JStr (js ''Hub''))] 1)) \<le> 50"
proof -
  have degree: "length (match_related star (Some (JStr (js ''Hub''))) 1) = 60"
    by code_simp
  from findRelatedEntities_caps_expansion[of star "Some (JStr (js ''Hub''))" 1]
  have "length (relatedEntities (expandViaGraph star [Some (JStr (js ''Hub''))] 1)) \<le> 50"
    by blast
  with degree show ?thesis by (rule conjI)
qed

subsection \<open>Depth zero\<close>

lemma match_related_zero: "match_related db entityName 0 = []"
  by (simp add: match_related_def var_length_def)

lemma expand_entity_zero: "expand_entity db 0 st entityName = st"
  by (simp add: expand_entity_def findRelatedEntities_def match_related_zero split: sum.splits)

lemma expandViaGraph_zero:
  "expandViaGraph db entityNames 0 = \<lparr>relatedEntities = [], paths = [], seenEntities = {}\<rparr>"
proof -
  have "foldl (expand_entity db 0) st entityNames = st" for st
    by (induction entityNames) (simp_all add: expand_entity_zero)
  then show ?thesis by (simp add: expandViaGraph_def)
qed

lemma vectorSearch_projected:
  "vectorSearch c m emb k = Inr vs \<Longrightarrow> \<forall>ch \<in> set vs. chunk_extraction ch = None"
  by (auto simp: vectorSearch_def project_def Let_def split: sum.splits)

lemma linked_names_none:
  "\<forall>ch \<in> set chunks. chunk_extraction ch = None \<Longrightarrow> linked_names names chunks = Inr names"
  by (induction chunks) simp_all

lemma extractEntityNames_projected:
  "\<forall>ch \<in> set chunks. chunk_extraction ch = None \<Longrightarrow>
   \<exists>names. extractEntityNamesFromChunks db chunks = Inr names"
  by (simp add: extractEntityNamesFromChunks_def linked_names_none split: sum.splits)

text \<open>
  C3.  With \<^verbatim>\<open>graphDepth = 0\<close>, whenever the embedding and the vector search succeed,
  \<^verbatim>\<open>hybridRetrieval\<close> returns, its evidence set is the vector search result, passage by
  passage and in the same order, and its list of relationship paths is empty.
\<close>

theorem hybridRetrieval_depth_zero_is_vector_only:
  assumes "graphDepth options = Some 0"
      and "embedQuery w query = Inr queryEmbedding"
      and "vectorSearch (cfg w) (mongo w) queryEmbedding
             (case topK options of None \<Rightarrow> cfg_topK (cfg w) | Some n \<Rightarrow> n) = Inr vectorResults"
  shows "\<exists>r. hybridRetrieval w query options = Inr r
            \<and> allChunks r = vectorResults \<and> vectorChunks r = vectorResults
            \<and> graphChunks r = [] \<and> graphPaths r = []"
proof (cases "vectorResults = []")
  case True
  with assms show ?thesis by (simp add: hybridRetrieval_def)
next
  case False
  from vectorSearch_projected[OF assms(3)] extractEntityNames_projected
  obtain names where "extractEntityNamesFromChunks (neo w) vectorResults = Inr names" by blast
  with assms False show ?thesis
    by (simp add: hybridRetrieval_def expandViaGraph_zero relatedChunkIds_def)
qed

theorem hybridRetrieval_depth_zero_is_vector_only_witness:
  "\<exists>r. hybridRetrieval stores_sam sam_question depth_zero = Inr r
       \<and> allChunks r = [hit_sam] \<and> vectorChunks r = [hit_sam]
       \<and> graphChunks r = [] \<and> graphPaths r = []"
proof -
  have d: "graphDepth depth_zero = Some 0"
    by (simp add: depth_zero_def)
  have e: "embedQuery stores_sam sam_question = Inr [1 / 2, 1 / 4]"
    by (simp add: stores_sam_def)
  have v: "vectorSearch (cfg stores_sam) (mongo stores_sam) [1 / 2, 1 / 4]
             (case topK depth_zero of None \<Rightarrow> cfg_topK (cfg stores_sam) | Some n \<Rightarrow> n)
           = Inr [hit_sam]"
    by code_simp
  from hybridRetrieval_depth_zero_is_vector_only[OF d e v] show ?thesis .
qed

subsection \<open>The merged evidence set\<close>

lemma getChunksByIds_Inr:
  "getChunksByIds m ids = Inr fetched \<Longrightarrow> fetched = filter (\<lambda>c. chunk_id c \<in> set ids) (collection m)"
  by (auto simp: getChunksByIds_def split: sum.splits)

lemma hybridRetrieval_Inr:
  assumes "hybridRetrieval w query options = Inr r"
  shows "\<exists>queryEmbedding.
           embedQuery w query = Inr queryEmbedding
         \<and> vectorSearch (cfg w) (mongo w) queryEmbedding
              (case topK options of None \<Rightarrow> cfg_topK (cfg w) | Some n \<Rightarrow> n) = Inr (vectorChunks r)
         \<and> allChunks r = vectorChunks r @ graphChunks r
         \<and> graphChunks r =
              filter (\<lambda>c. chunk_id c \<in> set (relatedChunkIds (graphEntities r))
                          \<and> chunk_id c \<notin> set (map chunk_id (vectorChunks r)))
                     (collection (mongo w))"
proof -
  from assms obtain emb vs where
    e: "embedQuery w query = Inr emb" and
    v: "vectorSearch (cfg w) (mongo w) emb
              (case topK options of None \<Rightarrow> cfg_topK (cfg w) | Some n \<Rightarrow> n) = Inr vs"
    by (auto simp: hybridRetrieval_def Let_def split: sum.splits)
  show ?thesis
  proof (cases "vs = []")
    case True
    with assms e v have "r = \<lparr>r_query = query, vectorChunks = [], graphEntities = [], graphChunks = [],
                 allChunks = [], graphPaths = []\<rparr>"
      by (simp add: hybridRetrieval_def Let_def)
    with e v True show ?thesis by (simp add: relatedChunkIds_def)
  next
    case False
    with assms e v obtain names where
      n: "extractEntityNamesFromChunks (neo w) vs = Inr names"
      by (auto simp: hybridRetrieval_def Let_def split: sum.splits)
    define depth where "depth = (case graphDepth options of None \<Rightarrow> cfg_graphTraversalDepth (cfg w) | Some d \<Rightarrow> d)"
    define ex where "ex = expandViaGraph (neo w) names depth"
    define ids where "ids = relatedChunkIds (relatedEntities ex)"
    define F where "F = (if ids \<noteq> [] then getChunksByIds (mongo w) ids else Inr [])"
    have unfolded: "hybridRetrieval w query options =
       (case F of
          Inl err \<Rightarrow> Inl err
        | Inr fetched \<Rightarrow>
            Inr \<lparr>r_query = query, vectorChunks = vs,
                 graphEntities = relatedEntities ex,
                 graphChunks = filter (\<lambda>c. chunk_id c \<notin> set (map chunk_id vs)) fetched,
                 allChunks = vs @ filter (\<lambda>c. chunk_id c \<notin> set (map chunk_id vs)) fetched,
                 graphPaths = (if (case includeGraphPaths options of None \<Rightarrow> True | Some b \<Rightarrow> b)
                               then paths ex else [])\<rparr>)"
      using e v False n
      by (simp add: hybridRetrieval_def Let_def F_def ids_def ex_def depth_def split: sum.splits)
    from assms unfolded obtain fetched where
      f: "F = Inr fetched"
      and r: "r = \<lparr>r_query = query, vectorChunks = vs,
                        graphEntities = relatedEntities ex,
                        graphChunks = filter (\<lambda>c. chunk_id c \<notin> set (map chunk_id vs)) fetched,
                        allChunks = vs @ filter (\<lambda>c. chunk_id c \<notin> set (map chunk_id vs)) fetched,
                        graphPaths = (if (case includeGraphPaths options of None \<Rightarrow> True | Some b \<Rightarrow> b)
                                      then paths ex else [])\<rparr>"
      by (cases F) simp_all
    have "fetched = filter (\<lambda>c. chunk_id c \<in> set ids) (collection (mongo w))"
    proof (cases "ids = []")
      case True
      with f show ?thesis by (simp add: F_def)
    next
      case False
      with f show ?thesis by (simp add: F_def getChunksByIds_Inr)
    qed
    with r e v show ?thesis by (simp add: ids_def conj_commute)
  qed
qed

lemma sam_retrieval_run: "hybridRetrieval stores_sam sam_question depth_two = Inr sam_expected"
  by code_simp

text \<open>
  C2, as stated, fails in its last part.  In the corpus
  \<^verbatim>\<open>Sam Altman -CEO_OF-> OpenAI -PARTNERED_WITH-> Microsoft\<close> the traversal discovers the
  passage \<^verbatim>\<open>g2\<close> (OpenAI) before \<^verbatim>\<open>g1\<close> (Microsoft), and the evidence set lists
  \<^verbatim>\<open>g1\<close> before \<^verbatim>\<open>g2\<close>: \<^verbatim>\<open>getChunksByIds\<close> returns the passages in the order of the
  chunk store, not in the order of the identifiers it was given.
\<close>

theorem hybridRetrieval_graph_passages_in_store_order:
  "hybridRetrieval stores_sam sam_question depth_two = Inr sam_expected
   \<and> relatedChunkIds (graphEntities sam_expected) = [(js ''g2''), (js ''g1''), (js ''c1'')]
   \<and> map chunk_id (vectorChunks sam_expected) = [(js ''c1'')]
   \<and> map chunk_id (allChunks sam_expected) = [(js ''c1''), (js ''g1''), (js ''g2'')]"
proof -
  have "relatedChunkIds (graphEntities sam_expected) = [(js ''g2''), (js ''g1''), (js ''c1'')]"
    "map chunk_id (vectorChunks sam_expected) = [(js ''c1'')]"
    "map chunk_id (allChunks sam_expected) = [(js ''c1''), (js ''g1''), (js ''g2'')]"
    by code_simp+
  with sam_retrieval_run show ?thesis by simp
qed

text \<open>
  C2, amended.  The evidence set is the vector search result, in its ranked order, followed by
  the graph passages, which are the passages of the chunk store, in the store's order, whose
  identifier belongs to a discovered entity and does not occur in the vector search result.
  So every identifier in it comes from the vector search result or from a discovered entity,
  and no identifier occurs twice when none does in the vector search result and in the store.
\<close>

theorem hybridRetrieval_evidence_set:
  assumes "hybridRetrieval w query options = Inr r"
  shows "allChunks r = vectorChunks r @ graphChunks r
       \<and> (\<exists>queryEmbedding.
             embedQuery w query = Inr queryEmbedding
           \<and> vectorSearch (cfg w) (mongo w) queryEmbedding
               (case topK options of None \<Rightarrow> cfg_topK (cfg w) | Some n \<Rightarrow> n) = Inr (vectorChunks r))
       \<and> graphChunks r =
            filter (\<lambda>c. chunk_id c \<in> set (relatedChunkIds (graphEntities r))
                        \<and> chunk_id c \<notin> set (map chunk_id (vectorChunks r)))
                   (collection (mongo w))
       \<and> set (map chunk_id (allChunks r))
            \<subseteq> set (map chunk_id (vectorChunks r)) \<union> set (relatedChunkIds (graphEntities r))
       \<and> (distinct (map chunk_id (vectorChunks r)) \<and> distinct (map chunk_id (collection (mongo w)))
            \<longrightarrow> distinct (map chunk_id (allChunks r)))"
proof -
  from hybridRetrieval_Inr[OF assms] obtain emb where
    e: "embedQuery w query = Inr emb"
       "vectorSearch (cfg w) (mongo w) emb
              (case topK options of None \<Rightarrow> cfg_topK (cfg w) | Some n \<Rightarrow> n) = Inr (vectorChunks r)"
    and a: "allChunks r = vectorChunks r @ graphChunks r"
    and g: "graphChunks r =
              filter (\<lambda>c. chunk_id c \<in> set (relatedChunkIds (graphEntities r))
                          \<and> chunk_id c \<notin> set (map chunk_id (vectorChunks r)))
                     (collection (mongo w))"
    by blast
  have sub: "set (map chunk_id (allChunks r))
            \<subseteq> set (map chunk_id (vectorChunks r)) \<union> set (relatedChunkIds (graphEntities r))"
    by (subst a, subst g) auto
  have dis: "distinct (map chunk_id (allChunks r))"
    if "distinct (map chunk_id (vectorChunks r))" "distinct (map chunk_id (collection (mongo w)))"
  proof -
    from that(2) have "distinct (map chunk_id (graphChunks r))"
      by (subst g) (rule distinct_map_filter)
    moreover have "set (map chunk_id (vectorChunks r)) \<inter> set (map chunk_id (graphChunks r)) = {}"
    proof -
      have "i \<notin> set (map chunk_id (graphChunks r))" if i: "i \<in> set (map chunk_id (vectorChunks r))" for i
      proof
        assume "i \<in> set (map chunk_id (graphChunks r))"
        then obtain c where "c \<in> set (graphChunks r)" "i = chunk_id c" by auto
        then have "i \<notin> set (map chunk_id (vectorChunks r))" by (subst (asm) g) simp
        with i show False by simp
      qed
      then show ?thesis by blast
    qed
    ultimately show ?thesis using that(1) by (simp add: a)
  qed
  from e a g sub dis show ?thesis by blast
qed

theorem hybridRetrieval_evidence_set_witness:
  "hybridRetrieval stores_sam sam_question depth_two = Inr sam_expected
   \<and> allChunks sam_expected = [hit_sam] @ [chunk_microsoft, chunk_openai]
   \<and> vectorChunks sam_expected = [hit_sam]
   \<and> graphChunks sam_expected = [chunk_microsoft, chunk_openai]
   \<and> collection (mongo stores_sam) = [chunk_sam, chunk_microsoft, chunk_openai]
   \<and> distinct (map chunk_id (allChunks sam_expected))"
proof -
  have v: "vectorChunks sam_expected = [hit_sam]"
    by (simp add: sam_expected_def)
  have f: "filter (\<lambda>c. chunk_id c \<in> set (relatedChunkIds (graphEntities sam_expected))
                        \<and> chunk_id c \<notin> set (map chunk_id (vectorChunks sam_expected)))
                   (collection (mongo stores_sam)) = [chunk_microsoft, chunk_openai]"
    by code_simp
  have c: "collection (mongo stores_sam) = [chunk_sam, chunk_microsoft, chunk_openai]"
    by (simp add: stores_sam_def)
  have d: "distinct (map chunk_id (vectorChunks sam_expected))
           \<and> distinct (map chunk_id (collection (mongo stores_sam)))"
    by code_simp
  note inst = hybridRetrieval_evidence_set[OF sam_retrieval_run]
  from inst have a: "allChunks sam_expected = vectorChunks sam_expected @ graphChunks sam_expected"
    by (rule conjunct1)
  from inst have "graphChunks sam_expected =
            filter (\<lambda>c. chunk_id c \<in> set (relatedChunkIds (graphEntities sam_expected))
                        \<and> chunk_id c \<notin> set (map chunk_id (vectorChunks sam_expected)))
                   (collection (mongo stores_sam))"
    by blast
  then have g: "graphChunks sam_expected = [chunk_microsoft, chunk_openai]"
    using f by (rule trans)
  from inst d have dis: "distinct (map chunk_id (allChunks sam_expected))"
    by blast
  from a v g have "allChunks sam_expected = [hit_sam] @ [chunk_microsoft, chunk_openai]"
    by simp
  with v c g dis sam_retrieval_run show ?thesis by blast
qed


section \<open>Properties of the query orchestrator\<close>

lemma connectMongoDB_keeps:
  "connectMongoDB w = (w1, res) \<Longrightarrow>
     generate w1 = generate w \<and> generations w1 = generations w \<and> cfg (sys w1) = cfg (sys w)"
  by (auto simp: connectMongoDB_def split: if_splits)

lemma connectNeo4j_keeps:
  "connectNeo4j w = (w1, res) \<Longrightarrow>
     generate w1 = generate w \<and> generations w1 = generations w \<and> cfg (sys w1) = cfg (sys w)"
  by (auto simp: connectNeo4j_def split: if_splits)

lemma close_keeps:
  "generations (closeNeo4j (closeMongoDB w)) = generations w"
  by (simp add: closeNeo4j_def closeMongoDB_def)

lemma queryGraphRAG_generating:
  assumes "connectMongoDB w = (w1, Inr u1)"
      and "connectNeo4j w1 = (w2, Inr u2)"
      and "hybridRetrieval (sys w2) query
             \<lparr>topK = Some (case q_topK options of None \<Rightarrow> cfg_topK (cfg (sys w)) | Some n \<Rightarrow> n),
              graphDepth = Some depth, includeGraphPaths = None\<rparr> = Inr rr"
      and "depth = (case q_graphDepth options of
                      None \<Rightarrow> cfg_graphTraversalDepth (cfg (sys w)) | Some d \<Rightarrow> d)"
      and "allChunks rr \<noteq> []"
  shows "queryGraphRAG w query options =
           (case answer_invoke (generate w (constructGraphAwarePrompt query rr
                   (default_prompt_options\<lparr>maxChunks := 2, maxGraphPaths := 3,
                      po_includeGraphPaths := (depth > 0), includeProvenance := False\<rparr>))) of
              None \<Rightarrow> None
            | Some settled \<Rightarrow>
                Some (closeNeo4j (closeMongoDB (w2\<lparr>generations := generations w + 1\<rparr>)),
                      Inr \<lparr>resp_query = query,
                           answer = (case settled of Inr content \<Rightarrow> content | Inl e \<Rightarrow> timeout_fallback),
                           citations = extractCitations (allChunks rr),
                           resp_graphPaths = graphPaths rr, retrievalResults = rr\<rparr>))"
proof -
  from connectMongoDB_keeps[OF assms(1)] connectNeo4j_keeps[OF assms(2)]
  have k: "generate w2 = generate w" "generations w2 = generations w"
    by simp_all
  show ?thesis
    using assms k
    by (simp add: queryGraphRAG_def query_body_def Let_def split: option.splits)
qed

lemma sam_connects:
  "connectMongoDB world_sam = (world_sam, Inr ())" "connectNeo4j world_sam = (world_sam, Inr ())"
  "connectMongoDB world_late = (world_late, Inr ())" "connectNeo4j world_late = (world_late, Inr ())"
  by (simp_all add: connectMongoDB_def connectNeo4j_def world_late_def world_sam_def stores_sam_def
        graph_sam_def db0_def)

lemma sam_retrieval_default:
  "hybridRetrieval (sys world_sam) sam_question
             \<lparr>topK = Some (case q_topK both_defaults of
                             None \<Rightarrow> cfg_topK (cfg (sys world_sam)) | Some n \<Rightarrow> n),
              graphDepth = Some 2, includeGraphPaths = None\<rparr> = Inr sam_expected"
  by code_simp

lemma sam_depth:
  "(2::nat) = (case q_graphDepth both_defaults of
                      None \<Rightarrow> cfg_graphTraversalDepth (cfg (sys world_sam)) | Some d \<Rightarrow> d)"
  by (simp add: both_defaults_def world_sam_def stores_sam_def)

lemma sam_citations_eq: "extractCitations (allChunks sam_expected) = sam_citations"
  by code_simp

text \<open>
  C6 on a query for which retrieval succeeds and the generation backend does not answer in
  time.  \<^verbatim>\<open>queryGraphRAG\<close> awaits \<^verbatim>\<open>model.invoke(prompt)\<close> with no timer of its own: when
  the backend never answers the call never returns, and when the backend answers after 200
  seconds the response carries that late answer, not the fallback string.  The fallback is
  reached only when the promise is rejected.
\<close>

theorem queryGraphRAG_waits_for_generation:
  "queryGraphRAG world_sam sam_question both_defaults = None
   \<and> map_option snd (queryGraphRAG world_late sam_question both_defaults)
       = Some (Inr \<lparr>resp_query = sam_question, answer = late_answer, citations = sam_citations,
                    resp_graphPaths = graphPaths sam_expected, retrievalResults = sam_expected\<rparr>)
   \<and> late_answer \<noteq> timeout_fallback"
proof (intro conjI)
  have ne: "allChunks sam_expected \<noteq> []"
    by (simp add: sam_expected_def)
  from queryGraphRAG_generating[OF sam_connects(1,2) sam_retrieval_default sam_depth ne]
  show "queryGraphRAG world_sam sam_question both_defaults = None"
    by (simp add: answer_invoke_def world_sam_def)
  have s: "sys world_late = sys world_sam"
    by (simp add: world_late_def)
  from sam_retrieval_default sam_depth
  have h: "hybridRetrieval (sys world_late) sam_question
             \<lparr>topK = Some (case q_topK both_defaults of
                             None \<Rightarrow> cfg_topK (cfg (sys world_late)) | Some n \<Rightarrow> n),
              graphDepth = Some 2, includeGraphPaths = None\<rparr> = Inr sam_expected"
    and d: "(2::nat) = (case q_graphDepth both_defaults of
                      None \<Rightarrow> cfg_graphTraversalDepth (cfg (sys world_late)) | Some d \<Rightarrow> d)"
    by (simp_all only: s)
  from queryGraphRAG_generating[OF sam_connects(3,4) h d ne] sam_citations_eq
  show "map_option snd (queryGraphRAG world_late sam_question both_defaults)
       = Some (Inr \<lparr>resp_query = sam_question, answer = late_answer, citations = sam_citations,
                    resp_graphPaths = graphPaths sam_expected, retrievalResults = sam_expected\<rparr>)"
    by (simp add: answer_invoke_def world_late_def)
  show "late_answer \<noteq> timeout_fallback"
    by (simp add: late_answer_def timeout_fallback_def js_def unit_of_def)
qed


end
